theory Spec2Isabelle
  imports Complex_Main
begin

section \<open>Errors and numpy arrays\<close>

text \<open>
  The exceptions that \<^verbatim>\<open>pyfr/interfaces.py\<close> can raise by itself: a missing attribute
  (\<^verbatim>\<open>getattr\<close>, \<^verbatim>\<open>self._beta\<close>), a missing dictionary key (\<^verbatim>\<open>viewmatmap[type]\<close>,
  \<^verbatim>\<open>elemap[type]\<close>), \<^verbatim>\<open>np.concatenate\<close> refusing its operands, and \<^verbatim>\<open>next\<close> on an
  exhausted iterator.
\<close>

datatype error = AttributeError string | KeyError string | ValueError | StopIteration | TypeError

text \<open>
  A numpy array is its shape and its entries in row-major order. The entries along the
  first axis are then consecutive blocks of \<open>data\<close>.
\<close>

datatype 'a ndarray = NDArray (shape: "nat list") (data: "'a list")

definition axis0 :: "'a ndarray \<Rightarrow> nat" where
  "axis0 a = (case shape a of [] \<Rightarrow> 0 | n # trail \<Rightarrow> n)"

text \<open>
  \<^verbatim>\<open>np.concatenate(arrs)\<close> along axis 0, as numpy documents it: it raises ValueError on
  an empty sequence, on a zero-dimensional operand, and when the operands differ in a
  dimension other than the first.
\<close>

definition np_concatenate :: "'a ndarray list \<Rightarrow> error + 'a ndarray" where
  "np_concatenate arrs =
     (case arrs of
        [] \<Rightarrow> Inl ValueError
      | a # rest \<Rightarrow>
          (case shape a of
             [] \<Rightarrow> Inl ValueError
           | n # trail \<Rightarrow>
               if list_all (\<lambda>b. case shape b of [] \<Rightarrow> False | m # tr \<Rightarrow> tr = trail) rest
               then Inr (NDArray (sum_list (map axis0 arrs) # trail) (concat (map data arrs)))
               else Inl ValueError))"

text \<open>\<^verbatim>\<open>a[np.newaxis, ...]\<close> and \<^verbatim>\<open>a[None, ...]\<close>: a leading axis of length one.\<close>

definition newaxis :: "'a ndarray \<Rightarrow> 'a ndarray" where
  "newaxis a = NDArray (1 # shape a) (data a)"

text \<open>
  The number of interface points of an assembled array: the length of the axis that
  follows the leading singleton axis.
\<close>

definition npoints :: "'a ndarray \<Rightarrow> nat" where
  "npoints a = (case shape a of n # m # trail \<Rightarrow> m | _ \<Rightarrow> 0)"

section \<open>Sides and element types\<close>

text \<open>A side is \<^verbatim>\<open>(type, eidx, face, rtag)\<close>.\<close>

type_synonym side = "string \<times> int \<times> int \<times> int"

text \<open>
  The element classes are not part of \<^verbatim>\<open>interfaces.py\<close>; an element object is taken
  as it is used there: its \<^verbatim>\<open>ndims\<close> and \<^verbatim>\<open>nvars\<close>, the view-matrix getters that
  \<^verbatim>\<open>getattr(ele, mat)\<close> finds by name (absent names raise AttributeError), and the two
  normal getters.
\<close>

record 'a element =
  ndims :: int
  nvars :: int
  view_mat_getters :: "string \<rightharpoonup> (int \<Rightarrow> int \<Rightarrow> int \<Rightarrow> 'a ndarray list)"
  get_mag_pnorms_for_inter :: "(int \<Rightarrow> int \<Rightarrow> int \<Rightarrow> 'a ndarray) option"
  get_norm_pnorms_for_inter :: "(int \<Rightarrow> int \<Rightarrow> int \<Rightarrow> 'a ndarray) option"

text \<open>
  \<^verbatim>\<open>elemap\<close> is a dict from element type to element object: an association list in
  the dict's iteration order, looked up with \<open>map_of\<close>.
\<close>

type_synonym 'a elemap = "(string \<times> 'a element) list"

section \<open>get\_view\_mats\<close>

text \<open>
  \<^verbatim>\<open>viewmatmap = {type: getattr(ele, mat) for type, ele in elemap.items()}\<close>:
  every element of the map is asked for the getter, whether a side refers to it or not.
\<close>

fun viewmatmap_of ::
  "'a elemap \<Rightarrow> string \<Rightarrow> error + (string \<times> (int \<Rightarrow> int \<Rightarrow> int \<Rightarrow> 'a ndarray list)) list" where
  "viewmatmap_of [] mat = Inr []"
| "viewmatmap_of ((type, ele) # rest) mat =
     (case view_mat_getters ele mat of
        None \<Rightarrow> Inl (AttributeError mat)
      | Some g \<Rightarrow>
          (case viewmatmap_of rest mat of
             Inl e \<Rightarrow> Inl e
           | Inr vm \<Rightarrow> Inr ((type, g) # vm)))"

text \<open>
  The loop \<^verbatim>\<open>for type, eidx, face, rtag in interside: scal += viewmatmap[type](eidx, face, rtag)\<close>.
\<close>

fun gather_scal ::
  "(string \<times> (int \<Rightarrow> int \<Rightarrow> int \<Rightarrow> 'a ndarray list)) list \<Rightarrow> side list \<Rightarrow> 'a ndarray list
   \<Rightarrow> error + 'a ndarray list" where
  "gather_scal vm [] scal = Inr scal"
| "gather_scal vm ((type, eidx, face, rtag) # rest) scal =
     (case map_of vm type of
        None \<Rightarrow> Inl (KeyError type)
      | Some g \<Rightarrow> gather_scal vm rest (scal @ g eidx face rtag))"

text \<open>The slice \<^verbatim>\<open>scal[i::3]\<close>.\<close>

fun every_third :: "'b list \<Rightarrow> 'b list" where
  "every_third (x # y # z # xs) = x # every_third xs"
| "every_third (x # xs) = [x]"
| "every_third [] = []"

definition slice3 :: "nat \<Rightarrow> 'b list \<Rightarrow> 'b list" where
  "slice3 i xs = every_third (drop i xs)"

text \<open>
  \<^verbatim>\<open>[np.concatenate(scal[i::3])[np.newaxis,...] for i in xrange(3)]\<close>, the indices
  given as a list.
\<close>

fun scal_v_of :: "'a ndarray list \<Rightarrow> nat list \<Rightarrow> error + 'a ndarray list" where
  "scal_v_of scal [] = Inr []"
| "scal_v_of scal (i # is) =
     (case np_concatenate (slice3 i scal) of
        Inl e \<Rightarrow> Inl e
      | Inr a \<Rightarrow>
          (case scal_v_of scal is of
             Inl e \<Rightarrow> Inl e
           | Inr as \<Rightarrow> Inr (newaxis a # as)))"

definition get_view_mats :: "side list \<Rightarrow> string \<Rightarrow> 'a elemap \<Rightarrow> error + 'a ndarray list" where
  "get_view_mats interside mat elemap =
     (case viewmatmap_of elemap mat of
        Inl e \<Rightarrow> Inl e
      | Inr viewmatmap \<Rightarrow>
          (case gather_scal viewmatmap interside [] of
             Inl e \<Rightarrow> Inl e
           | Inr scal \<Rightarrow> scal_v_of scal [0, 1, 2]))"

section \<open>get\_mag\_pnorm\_mat and get\_norm\_pnorm\_mat\<close>

text \<open>
  The list comprehension \<^verbatim>\<open>[elemap[type].get_..._for_inter(eidx, fidx, rtag) for ... in interside]\<close>,
  for the getter \<open>sel\<close> whose Python name is \<open>name\<close>.
\<close>

fun pnorms_of ::
  "('a element \<Rightarrow> (int \<Rightarrow> int \<Rightarrow> int \<Rightarrow> 'a ndarray) option) \<Rightarrow> string \<Rightarrow> side list \<Rightarrow> 'a elemap
   \<Rightarrow> error + 'a ndarray list" where
  "pnorms_of sel name [] elemap = Inr []"
| "pnorms_of sel name ((type, eidx, fidx, rtag) # rest) elemap =
     (case map_of elemap type of
        None \<Rightarrow> Inl (KeyError type)
      | Some ele \<Rightarrow>
          (case sel ele of
             None \<Rightarrow> Inl (AttributeError name)
           | Some g \<Rightarrow>
               (case pnorms_of sel name rest elemap of
                  Inl e \<Rightarrow> Inl e
                | Inr ps \<Rightarrow> Inr (g eidx fidx rtag # ps))))"

definition get_mag_pnorm_mat :: "side list \<Rightarrow> 'a elemap \<Rightarrow> error + 'a ndarray" where
  "get_mag_pnorm_mat interside elemap =
     (case pnorms_of get_mag_pnorms_for_inter ''get_mag_pnorms_for_inter'' interside elemap of
        Inl e \<Rightarrow> Inl e
      | Inr mag_pnorms \<Rightarrow>
          (case np_concatenate mag_pnorms of
             Inl e \<Rightarrow> Inl e
           | Inr a \<Rightarrow> Inr (newaxis a)))"

definition get_norm_pnorm_mat :: "side list \<Rightarrow> 'a elemap \<Rightarrow> error + 'a ndarray" where
  "get_norm_pnorm_mat interside elemap =
     (case pnorms_of get_norm_pnorms_for_inter ''get_norm_pnorms_for_inter'' interside elemap of
        Inl e \<Rightarrow> Inl e
      | Inr norm_pnorms \<Rightarrow>
          (case np_concatenate norm_pnorms of
             Inl e \<Rightarrow> Inl e
           | Inr a \<Rightarrow> Inr (newaxis a)))"

section \<open>Python objects, the instance and the backend\<close>

text \<open>
  The configuration object is not part of \<^verbatim>\<open>interfaces.py\<close>; it is taken as the two
  methods the file calls on it, \<^verbatim>\<open>cfg.get(section, option)\<close> and
  \<^verbatim>\<open>cfg.getfloat(section, option)\<close>. Floats are an abstract type \<open>'f\<close>.
\<close>

record 'f config =
  cfg_get :: "string \<Rightarrow> string \<Rightarrow> error + string"
  cfg_getfloat :: "string \<Rightarrow> string \<Rightarrow> error + 'f"

text \<open>
  The values held by instance attributes and passed to kernels. The last five are the
  objects of the backend; each carries the identity the backend gave it on allocation.
  \<open>MPIMatrix\<close> records the number of points and the vector length it was shaped for.
\<close>

datatype ('f, 'a) pyobj =
    PInt int
  | PFloat 'f
  | PBackend
  | PCfg "'f config"
  | View nat "'a ndarray list" "('f, 'a) pyobj" "string set"
  | MPIView nat "'a ndarray list" "('f, 'a) pyobj" "string set"
  | ConstMatrix nat "'a ndarray" "string set"
  | MPIMatrix nat nat "('f, 'a) pyobj"
  | Kernel string "('f, 'a) pyobj list"

text \<open>
  An instance is its attribute dictionary. The backend is the list of the objects it
  has allocated so far, oldest first. A method runs on the pair of both and returns a
  value or raises; in either case the pair is what the method left behind.
\<close>

type_synonym ('f, 'a) inst = "string \<rightharpoonup> ('f, 'a) pyobj"

type_synonym ('f, 'a) world = "('f, 'a) inst \<times> ('f, 'a) pyobj list"

type_synonym ('f, 'a, 'r) act = "('f, 'a) world \<Rightarrow> (error + 'r) \<times> ('f, 'a) world"

definition returnM :: "'r \<Rightarrow> ('f, 'a, 'r) act" where
  "returnM r w = (Inr r, w)"

definition liftM :: "error + 'r \<Rightarrow> ('f, 'a, 'r) act" where
  "liftM x w = (x, w)"

definition bindM :: "('f, 'a, 'r) act \<Rightarrow> ('r \<Rightarrow> ('f, 'a, 's) act) \<Rightarrow> ('f, 'a, 's) act" where
  "bindM m k w = (case m w of (Inl e, w') \<Rightarrow> (Inl e, w') | (Inr r, w') \<Rightarrow> k r w')"

text \<open>\<^verbatim>\<open>self.name = v\<close> and \<^verbatim>\<open>self.name\<close>.\<close>

definition setattr :: "string \<Rightarrow> ('f, 'a) pyobj \<Rightarrow> ('f, 'a, unit) act" where
  "setattr name v w = (Inr (), ((fst w)(name \<mapsto> v), snd w))"

definition getattr :: "string \<Rightarrow> ('f, 'a, ('f, 'a) pyobj) act" where
  "getattr name w =
     (case fst w name of
        None \<Rightarrow> (Inl (AttributeError name), w)
      | Some v \<Rightarrow> (Inr v, w))"

text \<open>Several attributes read from left to right, as the arguments of a call are.\<close>

fun getattrs :: "string list \<Rightarrow> ('f, 'a, ('f, 'a) pyobj list) act" where
  "getattrs [] = returnM []"
| "getattrs (n # ns) = bindM (getattr n) (\<lambda>v. bindM (getattrs ns) (\<lambda>vs. returnM (v # vs)))"

text \<open>
  Modelled from the spec: the backend (\<^verbatim>\<open>be\<close>), which is not in \<^verbatim>\<open>interfaces.py\<close>.
  The spec lists what is consumed of it: allocate an indirect view or a distributed view,
  allocate an immutable dense array, allocate a dense receive buffer shaped to match a
  given view, and materialize a named, parameterized kernel descriptor. Each allocation
  appends one new object, whose identity is its position in the list; a kernel
  descriptor is the name with the operands, and allocates nothing.
\<close>

definition be_view ::
  "'a ndarray list \<Rightarrow> ('f, 'a) pyobj \<Rightarrow> string set \<Rightarrow> ('f, 'a, ('f, 'a) pyobj) act" where
  "be_view mats vlen tags w =
     (let ob = View (length (snd w)) mats vlen tags in (Inr ob, (fst w, snd w @ [ob])))"

definition be_mpi_view ::
  "'a ndarray list \<Rightarrow> ('f, 'a) pyobj \<Rightarrow> string set \<Rightarrow> ('f, 'a, ('f, 'a) pyobj) act" where
  "be_mpi_view mats vlen tags w =
     (let ob = MPIView (length (snd w)) mats vlen tags in (Inr ob, (fst w, snd w @ [ob])))"

definition be_const_matrix :: "'a ndarray \<Rightarrow> string set \<Rightarrow> ('f, 'a, ('f, 'a) pyobj) act" where
  "be_const_matrix arr tags w =
     (let ob = ConstMatrix (length (snd w)) arr tags in (Inr ob, (fst w, snd w @ [ob])))"

definition view_npoints :: "'a ndarray list \<Rightarrow> nat" where
  "view_npoints mats = (case mats of [] \<Rightarrow> 0 | m # ms \<Rightarrow> npoints m)"

definition be_mpi_matrix_for_view :: "('f, 'a) pyobj \<Rightarrow> ('f, 'a, ('f, 'a) pyobj) act" where
  "be_mpi_matrix_for_view v w =
     (case v of
        MPIView oid mats vlen tags \<Rightarrow>
          (let ob = MPIMatrix (length (snd w)) (view_npoints mats) vlen
           in (Inr ob, (fst w, snd w @ [ob])))
      | _ \<Rightarrow> (Inl TypeError, w))"

definition be_kernel :: "string \<Rightarrow> ('f, 'a) pyobj list \<Rightarrow> ('f, 'a, ('f, 'a) pyobj) act" where
  "be_kernel name args w = (Inr (Kernel name args), w)"

section \<open>The classes\<close>

subsection \<open>BaseInterfaces\<close>

text \<open>\<^verbatim>\<open>next(iter(elemap.viewvalues()))\<close>: the first value, StopIteration on an empty dict.\<close>

definition first_value :: "'a elemap \<Rightarrow> error + 'a element" where
  "first_value elemap = (case elemap of [] \<Rightarrow> Inl StopIteration | (type, ele) # rest \<Rightarrow> Inr ele)"

definition BaseInterfaces_init :: "'a elemap \<Rightarrow> 'f config \<Rightarrow> ('f, 'a, unit) act" where
  "BaseInterfaces_init elemap cfg =
     bindM (setattr ''_be'' PBackend) (\<lambda>_.
     bindM (setattr ''_cfg'' (PCfg cfg)) (\<lambda>_.
     bindM (liftM (first_value elemap)) (\<lambda>ele.
     bindM (setattr ''ndims'' (PInt (ndims ele))) (\<lambda>_.
     bindM (liftM (first_value elemap)) (\<lambda>ele'.
     setattr ''nvars'' (PInt (nvars ele')))))))"

subsection \<open>BaseInternalInterfaces\<close>

definition BaseInternalInterfaces_init ::
  "side list \<Rightarrow> side list \<Rightarrow> 'a elemap \<Rightarrow> 'f config \<Rightarrow> ('f, 'a, unit) act" where
  "BaseInternalInterfaces_init lhs rhs elemap cfg =
     bindM (BaseInterfaces_init elemap cfg) (\<lambda>_.
     bindM (liftM (get_view_mats lhs ''get_scal_fpts0_for_inter'' elemap)) (\<lambda>scal0_lhs.
     bindM (liftM (get_view_mats rhs ''get_scal_fpts0_for_inter'' elemap)) (\<lambda>scal0_rhs.
     bindM (getattr ''nvars'') (\<lambda>vlen.
     bindM (be_view scal0_lhs vlen {''nopad''}) (\<lambda>v.
     bindM (setattr ''_scal0_lhs'' v) (\<lambda>_.
     bindM (getattr ''nvars'') (\<lambda>vlen.
     bindM (be_view scal0_rhs vlen {''nopad''}) (\<lambda>v.
     bindM (setattr ''_scal0_rhs'' v) (\<lambda>_.
     bindM (liftM (get_mag_pnorm_mat lhs elemap)) (\<lambda>mag_pnorm_lhs.
     bindM (liftM (get_mag_pnorm_mat rhs elemap)) (\<lambda>mag_pnorm_rhs.
     bindM (be_const_matrix mag_pnorm_lhs {''nopad''}) (\<lambda>m.
     bindM (setattr ''_mag_pnorm_lhs'' m) (\<lambda>_.
     bindM (be_const_matrix mag_pnorm_rhs {''nopad''}) (\<lambda>m.
     bindM (setattr ''_mag_pnorm_rhs'' m) (\<lambda>_.
     bindM (liftM (get_norm_pnorm_mat lhs elemap)) (\<lambda>norm_pnorm_lhs.
     bindM (be_const_matrix norm_pnorm_lhs {''nopad''}) (\<lambda>m.
     setattr ''_norm_pnorm_lhs'' m)))))))))))))))))"

subsection \<open>BaseMPIInterfaces\<close>

definition MPI_TAG :: int where
  "MPI_TAG = 2314"

text \<open>
  \<^verbatim>\<open>self.MPI_TAG\<close>: the instance's own attribute if it has one, the class attribute
  otherwise.
\<close>

definition getattr_MPI_TAG :: "('f, 'a, ('f, 'a) pyobj) act" where
  "getattr_MPI_TAG w =
     (case fst w ''MPI_TAG'' of
        None \<Rightarrow> (Inr (PInt MPI_TAG), w)
      | Some v \<Rightarrow> (Inr v, w))"

definition BaseMPIInterfaces_init ::
  "side list \<Rightarrow> int \<Rightarrow> 'a elemap \<Rightarrow> 'f config \<Rightarrow> ('f, 'a, unit) act" where
  "BaseMPIInterfaces_init lhs rhsrank elemap cfg =
     bindM (BaseInterfaces_init elemap cfg) (\<lambda>_.
     bindM (setattr ''_rhsrank'' (PInt rhsrank)) (\<lambda>_.
     bindM (liftM (get_view_mats lhs ''get_scal_fpts0_for_inter'' elemap)) (\<lambda>scal0_lhs.
     bindM (getattr ''nvars'') (\<lambda>vlen.
     bindM (be_mpi_view scal0_lhs vlen {''nopad''}) (\<lambda>v.
     bindM (setattr ''_scal0_lhs'' v) (\<lambda>_.
     bindM (getattr ''_scal0_lhs'') (\<lambda>v.
     bindM (be_mpi_matrix_for_view v) (\<lambda>m.
     bindM (setattr ''_scal0_rhs'' m) (\<lambda>_.
     bindM (liftM (get_mag_pnorm_mat lhs elemap)) (\<lambda>mag_pnorm_lhs.
     bindM (liftM (get_norm_pnorm_mat lhs elemap)) (\<lambda>norm_pnorm_lhs.
     bindM (be_const_matrix mag_pnorm_lhs {''nopad''}) (\<lambda>m.
     bindM (setattr ''_mag_pnorm_lhs'' m) (\<lambda>_.
     bindM (be_const_matrix norm_pnorm_lhs {''nopad''}) (\<lambda>m.
     setattr ''_norm_pnorm_lhs'' m))))))))))))))"

definition get_scal_fpts0_pack_kern :: "('f, 'a, ('f, 'a) pyobj) act" where
  "get_scal_fpts0_pack_kern =
     bindM (getattr ''_be'') (\<lambda>_.
     bindM (getattrs [''_scal0_lhs'']) (\<lambda>args.
     be_kernel ''pack'' args))"

definition get_scal_fpts0_send_pack_kern :: "('f, 'a, ('f, 'a) pyobj) act" where
  "get_scal_fpts0_send_pack_kern =
     bindM (getattr ''_be'') (\<lambda>_.
     bindM (getattrs [''_scal0_lhs'', ''_rhsrank'']) (\<lambda>args.
     bindM getattr_MPI_TAG (\<lambda>tag.
     be_kernel ''send_pack'' (args @ [tag]))))"

definition get_scal_fpts0_recv_pack_kern :: "('f, 'a, ('f, 'a) pyobj) act" where
  "get_scal_fpts0_recv_pack_kern =
     bindM (getattr ''_be'') (\<lambda>_.
     bindM (getattrs [''_scal0_rhs'', ''_rhsrank'']) (\<lambda>args.
     bindM getattr_MPI_TAG (\<lambda>tag.
     be_kernel ''recv_pack'' (args @ [tag]))))"

definition get_scal_fpts0_unpack_kern :: "('f, 'a, ('f, 'a) pyobj) act" where
  "get_scal_fpts0_unpack_kern =
     bindM (getattr ''_be'') (\<lambda>_.
     bindM (getattrs [''_scal0_rhs'']) (\<lambda>args.
     be_kernel ''unpack'' args))"

subsection \<open>The Euler classes\<close>

text \<open>
  \<^verbatim>\<open>self._cfg.getfloat(s, o)\<close> and \<^verbatim>\<open>self._cfg.get(s, o)\<close> on the value of the
  attribute; a value that is no configuration object has neither method.
\<close>

definition call_getfloat :: "('f, 'a) pyobj \<Rightarrow> string \<Rightarrow> string \<Rightarrow> error + 'f" where
  "call_getfloat c s o' =
     (case c of PCfg cfg \<Rightarrow> cfg_getfloat cfg s o' | _ \<Rightarrow> Inl (AttributeError ''getfloat''))"

definition call_get :: "('f, 'a) pyobj \<Rightarrow> string \<Rightarrow> string \<Rightarrow> error + string" where
  "call_get c s o' =
     (case c of PCfg cfg \<Rightarrow> cfg_get cfg s o' | _ \<Rightarrow> Inl (AttributeError ''get''))"

definition EulerInternalInterfaces_get_rsolve_kern :: "('f, 'a, ('f, 'a) pyobj) act" where
  "EulerInternalInterfaces_get_rsolve_kern =
     bindM (getattr ''_cfg'') (\<lambda>c.
     bindM (liftM (call_getfloat c ''constants'' ''gamma'')) (\<lambda>gamma.
     bindM (getattr ''_be'') (\<lambda>_.
     bindM (getattrs [''ndims'', ''nvars'', ''_scal0_lhs'', ''_scal0_rhs'',
                      ''_mag_pnorm_lhs'', ''_mag_pnorm_rhs'', ''_norm_pnorm_lhs'']) (\<lambda>args.
     be_kernel ''rsolve_rus_inv_int'' (args @ [PFloat gamma])))))"

text \<open>
  The builtin \<^verbatim>\<open>float\<close> applied to a string is the parameter \<open>pyfloat\<close>.
\<close>

definition EulerMPIInterfaces_get_rsolve_kern ::
  "(string \<Rightarrow> error + 'f) \<Rightarrow> ('f, 'a, ('f, 'a) pyobj) act" where
  "EulerMPIInterfaces_get_rsolve_kern pyfloat =
     bindM (getattr ''_cfg'') (\<lambda>c.
     bindM (liftM (call_get c ''constants'' ''gamma'')) (\<lambda>s.
     bindM (liftM (pyfloat s)) (\<lambda>gamma.
     bindM (getattr ''_be'') (\<lambda>_.
     bindM (getattrs [''ndims'', ''nvars'', ''_scal0_lhs'', ''_scal0_rhs'',
                      ''_mag_pnorm_lhs'', ''_norm_pnorm_lhs'']) (\<lambda>args.
     be_kernel ''rsolve_rus_inv_mpi'' (args @ [PFloat gamma]))))))"

subsection \<open>The Navier-Stokes classes\<close>

definition NavierStokesInternalInterfaces_init ::
  "side list \<Rightarrow> side list \<Rightarrow> 'a elemap \<Rightarrow> 'f config \<Rightarrow> ('f, 'a, unit) act" where
  "NavierStokesInternalInterfaces_init lhs rhs elemap cfg =
     bindM (BaseInternalInterfaces_init lhs rhs elemap cfg) (\<lambda>_.
     bindM (liftM (get_view_mats lhs ''get_scal_fpts1_for_inter'' elemap)) (\<lambda>scal1_lhs.
     bindM (liftM (get_view_mats rhs ''get_scal_fpts1_for_inter'' elemap)) (\<lambda>scal1_rhs.
     bindM (getattr ''nvars'') (\<lambda>vlen.
     bindM (be_view scal1_lhs vlen {''nopad''}) (\<lambda>v.
     bindM (setattr ''_scal1_lhs'' v) (\<lambda>_.
     bindM (getattr ''nvars'') (\<lambda>vlen.
     bindM (be_view scal1_rhs vlen {''nopad''}) (\<lambda>v.
     setattr ''_scal1_rhs'' v))))))))"

definition NavierStokesInternalInterfaces_get_conu_fpts_kern :: "('f, 'a, ('f, 'a) pyobj) act" where
  "NavierStokesInternalInterfaces_get_conu_fpts_kern =
     bindM (getattr ''_be'') (\<lambda>_.
     bindM (getattrs [''ndims'', ''nvars'', ''_scal0_lhs'', ''_scal0_rhs'',
                      ''_scal1_lhs'', ''_scal1_rhs'', ''_beta'']) (\<lambda>args.
     be_kernel ''conu_int'' args))"

definition NavierStokesMPIInterfaces_init ::
  "side list \<Rightarrow> int \<Rightarrow> 'a elemap \<Rightarrow> 'f config \<Rightarrow> ('f, 'a, unit) act" where
  "NavierStokesMPIInterfaces_init lhs rhsrank elemap cfg =
     bindM (BaseMPIInterfaces_init lhs rhsrank elemap cfg) (\<lambda>_.
     bindM (liftM (get_view_mats lhs ''get_scal_fpts1_for_inter'' elemap)) (\<lambda>scal1_lhs.
     bindM (getattr ''nvars'') (\<lambda>vlen.
     bindM (be_mpi_view scal1_lhs vlen {''nopad''}) (\<lambda>v.
     setattr ''_scal1_lhs'' v))))"

definition NavierStokesMPIInterfaces_get_conu_fpts_kern :: "('f, 'a, ('f, 'a) pyobj) act" where
  "NavierStokesMPIInterfaces_get_conu_fpts_kern =
     bindM (getattr ''_be'') (\<lambda>_.
     bindM (getattrs [''ndims'', ''nvars'', ''_scal0_lhs'', ''_scal0_rhs'', ''_scal1_lhs'']) (\<lambda>args.
     be_kernel ''conu_mpi'' args))"

subsection \<open>Instantiation\<close>

text \<open>
  \<^verbatim>\<open>Cls(be, ...)\<close> runs \<^verbatim>\<open>__init__\<close> on a new object with no attributes. The caller
  gets the object only if \<^verbatim>\<open>__init__\<close> returns; if it raises, the exception is all
  the caller sees, and the backend keeps what was allocated until then.

  The Euler classes inherit \<^verbatim>\<open>__init__\<close> from their base classes. The two Navier-Stokes
  classes do not define \<^verbatim>\<open>get_rsolve_kern\<close>, which \<^verbatim>\<open>BaseInterfaces\<close> declares abstract
  under \<^verbatim>\<open>ABCMeta\<close>, so their \<^verbatim>\<open>__init__\<close> and methods run on instances of subclasses
  that define it; the statements about Navier-Stokes sets are about every instance that
  \<^verbatim>\<open>__init__\<close> has initialised.
\<close>

definition instantiate ::
  "('f, 'a, unit) act \<Rightarrow> ('f, 'a) pyobj list \<Rightarrow> (error + ('f, 'a) inst) \<times> ('f, 'a) pyobj list" where
  "instantiate init be =
     (case init (Map.empty, be) of
        (Inl e, w) \<Rightarrow> (Inl e, snd w)
      | (Inr u, w) \<Rightarrow> (Inr (fst w), snd w))"

section \<open>Describing what the accessors return\<close>

text \<open>
  The vocabulary of the statements below. Fragments are \<open>conformable\<close> when
  \<^verbatim>\<open>np.concatenate\<close> accepts them: there is at least one, and each has the same
  dimensions \<open>trail\<close> after the first. \<open>joined\<close> is then the assembled array, with its
  leading singleton axis. \<open>view_getter_returns\<close> and \<open>pnorm_getter_returns\<close> say what the
  element type of a side returns for that side.
\<close>

definition conformable :: "nat list \<Rightarrow> 'a ndarray list \<Rightarrow> bool" where
  "conformable trail arrs \<longleftrightarrow>
     arrs \<noteq> [] \<and> list_all (\<lambda>a. case shape a of [] \<Rightarrow> False | n # tr \<Rightarrow> tr = trail) arrs"

definition joined :: "nat list \<Rightarrow> 'a ndarray list \<Rightarrow> 'a ndarray" where
  "joined trail arrs = NDArray (1 # sum_list (map axis0 arrs) # trail) (concat (map data arrs))"

definition view_getter_returns :: "'a elemap \<Rightarrow> string \<Rightarrow> side \<Rightarrow> 'a ndarray list \<Rightarrow> bool" where
  "view_getter_returns elemap mat s frs =
     (case s of (type, eidx, face, rtag) \<Rightarrow>
        (case map_of elemap type of
           None \<Rightarrow> False
         | Some ele \<Rightarrow>
             (case view_mat_getters ele mat of
                None \<Rightarrow> False
              | Some g \<Rightarrow> g eidx face rtag = frs)))"

definition pnorm_getter_returns ::
  "('a element \<Rightarrow> (int \<Rightarrow> int \<Rightarrow> int \<Rightarrow> 'a ndarray) option) \<Rightarrow> 'a elemap \<Rightarrow> side \<Rightarrow> 'a ndarray \<Rightarrow> bool" where
  "pnorm_getter_returns sel elemap s fr =
     (case s of (type, eidx, fidx, rtag) \<Rightarrow>
        (case map_of elemap type of
           None \<Rightarrow> False
         | Some ele \<Rightarrow>
             (case sel ele of
                None \<Rightarrow> False
              | Some g \<Rightarrow> g eidx fidx rtag = fr)))"


text \<open>
  The arrays behind an attribute of an instance, and the instance a constructor call
  returned (no attributes if it raised).
\<close>

definition arrays_of :: "('f, 'a) inst \<Rightarrow> string \<Rightarrow> 'a ndarray list" where
  "arrays_of self name =
     (case self name of
        Some (View oid mats vlen tags) \<Rightarrow> mats
      | Some (MPIView oid mats vlen tags) \<Rightarrow> mats
      | Some (ConstMatrix oid arr tags) \<Rightarrow> [arr]
      | _ \<Rightarrow> [])"

definition the_instance :: "(error + ('f, 'a) inst) \<times> ('f, 'a) pyobj list \<Rightarrow> ('f, 'a) inst" where
  "the_instance r = (case fst r of Inl e \<Rightarrow> Map.empty | Inr self \<Rightarrow> self)"

text \<open>The constant arrays allocated by \<^verbatim>\<open>be.const_matrix\<close>.\<close>

definition is_const_matrix :: "('f, 'a) pyobj \<Rightarrow> bool" where
  "is_const_matrix v = (case v of ConstMatrix oid arr tags \<Rightarrow> True | _ \<Rightarrow> False)"

text \<open>
  Calling a method twice in a row: what the first call returned or raised, what the
  second did, and the instance and backend the two calls left behind.
\<close>

definition twice ::
  "('f, 'a, 'r) act \<Rightarrow> ('f, 'a) world \<Rightarrow> (error + 'r) \<times> (error + 'r) \<times> ('f, 'a) world" where
  "twice m w = (case m w of (r1, w1) \<Rightarrow> (case m w1 of (r2, w2) \<Rightarrow> (r1, r2, w2)))"

section \<open>Example inputs\<close>

text \<open>
  Two element types whose faces have four points each, three interfaces between them, and
  a configuration with the constant \<^verbatim>\<open>gamma\<close>. \<open>ex_bare\<close> is an element type with no
  accessor at all.
\<close>

definition ex_getter :: "int \<Rightarrow> int \<Rightarrow> int \<Rightarrow> int \<Rightarrow> int ndarray list" where
  "ex_getter c eidx face rtag =
     [NDArray [4] [c, c, c, c],
      NDArray [4, 2] [4 * face, eidx, 4 * face + 1, eidx, 4 * face + 2, eidx, 4 * face + 3, eidx],
      NDArray [4, 2] [1, 8, 1, 8, 1, 8, 1, 8]]"

definition ex_ele :: "int \<Rightarrow> int element" where
  "ex_ele c =
     \<lparr>ndims = 2, nvars = 4,
      view_mat_getters = [''get_scal_fpts0_for_inter'' \<mapsto> ex_getter c,
                          ''get_scal_fpts1_for_inter'' \<mapsto> ex_getter (c + 10)],
      get_mag_pnorms_for_inter =
        Some (\<lambda>eidx fidx rtag. NDArray [4] [fidx + 1, fidx + 1, fidx + 1, fidx + 1]),
      get_norm_pnorms_for_inter =
        Some (\<lambda>eidx fidx rtag. NDArray [4, 2] [1, 0, 1, 0, 1, 0, 1, 0])\<rparr>"

definition ex_elemap :: "int elemap" where
  "ex_elemap = [(''quad'', ex_ele 0), (''tri'', ex_ele 1)]"

definition ex_lhs :: "side list" where
  "ex_lhs = [(''quad'', 0, 1, 0), (''tri'', 0, 0, 0), (''quad'', 1, 2, 0)]"

definition ex_rhs :: "side list" where
  "ex_rhs = [(''quad'', 1, 3, 0), (''quad'', 0, 0, 0), (''tri'', 0, 2, 0)]"

definition ex_cfg :: "real config" where
  "ex_cfg =
     \<lparr>cfg_get = (\<lambda>s o'. if s = ''constants'' \<and> o' = ''gamma'' then Inr ''1.4'' else Inl (KeyError o')),
      cfg_getfloat = (\<lambda>s o'. if s = ''constants'' \<and> o' = ''gamma'' then Inr (7 / 5) else Inl (KeyError o'))\<rparr>"

definition ex_frags :: "side \<Rightarrow> int ndarray list" where
  "ex_frags s = (case s of (type, eidx, face, rtag) \<Rightarrow>
     ex_getter (if type = ''quad'' then 0 else 1) eidx face rtag)"

definition ex_bare :: "int element" where
  "ex_bare =
     \<lparr>ndims = 2, nvars = 4, view_mat_getters = Map.empty,
      get_mag_pnorms_for_inter = None, get_norm_pnorms_for_inter = None\<rparr>"

text \<open>
  A right-hand side list of one side only, what the normal getters of the example
  elements return, and the two constructions on an empty backend: three paired sides,
  and three left sides against one right side.
\<close>

definition ex_rhs1 :: "side list" where
  "ex_rhs1 = [(''tri'', 0, 2, 0)]"

definition ex_mag :: "side \<Rightarrow> int ndarray" where
  "ex_mag s = (case s of (type, eidx, fidx, rtag) \<Rightarrow>
     NDArray [4] [fidx + 1, fidx + 1, fidx + 1, fidx + 1])"

definition ex_norm :: "side \<Rightarrow> int ndarray" where
  "ex_norm s = NDArray [4, 2] [1, 0, 1, 0, 1, 0, 1, 0]"

definition ex_internal :: "(error + (real, int) inst) \<times> (real, int) pyobj list" where
  "ex_internal = instantiate (BaseInternalInterfaces_init ex_lhs ex_rhs ex_elemap ex_cfg) []"

definition ex_internal_uneven :: "(error + (real, int) inst) \<times> (real, int) pyobj list" where
  "ex_internal_uneven = instantiate (BaseInternalInterfaces_init ex_lhs ex_rhs1 ex_elemap ex_cfg) []"

text \<open>
  Distributed sets on the same backend, one built after the other, and the two
  Navier-Stokes sets.
\<close>

definition ex_mpi :: "(error + (real, int) inst) \<times> (real, int) pyobj list" where
  "ex_mpi = instantiate (BaseMPIInterfaces_init ex_lhs 2 ex_elemap ex_cfg) []"

definition ex_mpi_later :: "(error + (real, int) inst) \<times> (real, int) pyobj list" where
  "ex_mpi_later = instantiate (BaseMPIInterfaces_init ex_rhs1 5 ex_elemap ex_cfg) (snd ex_mpi)"

definition ex_ns_internal :: "(error + (real, int) inst) \<times> (real, int) pyobj list" where
  "ex_ns_internal =
     instantiate (NavierStokesInternalInterfaces_init ex_lhs ex_rhs ex_elemap ex_cfg) []"

definition ex_ns_mpi :: "(error + (real, int) inst) \<times> (real, int) pyobj list" where
  "ex_ns_mpi = instantiate (NavierStokesMPIInterfaces_init ex_lhs 2 ex_elemap ex_cfg) []"

text \<open>
  A configuration whose \<^verbatim>\<open>gamma\<close> is not a number, so that \<^verbatim>\<open>getfloat\<close> raises
  ValueError; the builtin \<^verbatim>\<open>float\<close> on the two texts that the example configurations
  hold; and an internal set constructed with that configuration.
\<close>

definition ex_cfg_bad :: "real config" where
  "ex_cfg_bad =
     \<lparr>cfg_get = (\<lambda>s o'. if s = ''constants'' \<and> o' = ''gamma'' then Inr ''abc'' else Inl (KeyError o')),
      cfg_getfloat = (\<lambda>s o'. if s = ''constants'' \<and> o' = ''gamma'' then Inl ValueError else Inl (KeyError o'))\<rparr>"

definition ex_float :: "string \<Rightarrow> error + real" where
  "ex_float s = (if s = ''1.4'' then Inr (7 / 5) else Inl ValueError)"

definition ex_internal_badcfg :: "(error + (real, int) inst) \<times> (real, int) pyobj list" where
  "ex_internal_badcfg =
     instantiate (BaseInternalInterfaces_init ex_lhs ex_rhs ex_elemap ex_cfg_bad) []"

section \<open>Assembling arrays\<close>

lemma np_concatenate_Inr_iff:
  "np_concatenate arrs = Inr r \<longleftrightarrow>
     (\<exists>trail. conformable trail arrs \<and> newaxis r = joined trail arrs)"
  by (cases r) (auto simp: np_concatenate_def conformable_def joined_def newaxis_def
      split: list.splits)

lemma np_concatenate_conformable:
  "conformable trail arrs \<Longrightarrow>
     np_concatenate arrs = Inr (NDArray (sum_list (map axis0 arrs) # trail) (concat (map data arrs)))"
  by (auto simp: np_concatenate_def conformable_def split: list.splits)

lemma np_concatenate_Inl:
  "np_concatenate arrs = Inl e \<Longrightarrow> e = ValueError"
  by (auto simp: np_concatenate_def split: list.splits if_splits)

lemma every_third_triples0:
  "every_third (concat (map (\<lambda>s. [A s, B s, C s]) S)) = map A S"
  by (induction S) auto

lemma every_third_triples1:
  "every_third (drop 1 (concat (map (\<lambda>s. [A s, B s, C s]) S))) = map B S"
proof (induction S)
  case Nil
  then show ?case by simp
next
  case (Cons s S)
  then show ?case by (cases S) auto
qed

lemma every_third_triples2:
  "every_third (drop 2 (concat (map (\<lambda>s. [A s, B s, C s]) S))) = map C S"
proof (induction S)
  case Nil
  then show ?case by simp
next
  case (Cons s S)
  then show ?case by (cases S) auto
qed

lemma viewmatmap_of_Inr_map_of:
  "viewmatmap_of elemap mat = Inr vm \<Longrightarrow>
     map_of vm t = (case map_of elemap t of None \<Rightarrow> None | Some ele \<Rightarrow> view_mat_getters ele mat)"
  by (induction elemap mat arbitrary: vm rule: viewmatmap_of.induct)
     (auto split: option.splits sum.splits)

lemma viewmatmap_of_Inl_iff:
  "(\<exists>e. viewmatmap_of elemap mat = Inl e) \<longleftrightarrow> (\<exists>p \<in> set elemap. view_mat_getters (snd p) mat = None)"
  by (induction elemap mat rule: viewmatmap_of.induct)
     (fastforce split: option.splits sum.splits)+

lemma viewmatmap_of_Inl:
  "viewmatmap_of elemap mat = Inl e \<Longrightarrow> e = AttributeError mat"
  by (induction elemap mat rule: viewmatmap_of.induct)
     (auto split: option.splits sum.splits)

lemma gather_scal_returns:
  assumes "viewmatmap_of elemap mat = Inr vm"
    and "\<forall>s \<in> set S. view_getter_returns elemap mat s (F s)"
  shows "gather_scal vm S scal = Inr (scal @ concat (map F S))"
  using assms(2)
proof (induction S arbitrary: scal)
  case Nil
  then show ?case by simp
next
  case (Cons s S)
  obtain t e f r where s: "s = (t, e, f, r)" by (cases s) auto
  from Cons.prems have "view_getter_returns elemap mat s (F s)" by simp
  then obtain g where "map_of vm t = Some g" "g e f r = F s"
    using viewmatmap_of_Inr_map_of [OF assms(1), of t]
    by (auto simp: view_getter_returns_def s split: option.splits)
  then show ?case using Cons by (simp add: s)
qed

lemma gather_scal_Inl:
  "gather_scal vm S scal = Inl e \<Longrightarrow> \<exists>t \<in> fst ` set S. e = KeyError t \<and> map_of vm t = None"
  by (induction vm S scal rule: gather_scal.induct) (auto split: option.splits)

lemma scal_v_of_Inl: "scal_v_of scal is = Inl e \<Longrightarrow> e = ValueError"
  by (induction "is" arbitrary: e) (auto split: sum.splits dest: np_concatenate_Inl)

lemma joined_newaxis:
  "joined trail arrs = newaxis (NDArray (sum_list (map axis0 arrs) # trail) (concat (map data arrs)))"
  by (simp add: joined_def newaxis_def)

lemma newaxis_inject: "newaxis a = newaxis b \<longleftrightarrow> a = b"
  by (cases a; cases b) (simp add: newaxis_def)

lemma scal_v_of_triples:
  "scal_v_of (concat (map (\<lambda>s. [A s, B s, C s]) S)) [0, 1, 2] = Inr r \<longleftrightarrow>
     (\<exists>ta tb tc. conformable ta (map A S) \<and> conformable tb (map B S) \<and> conformable tc (map C S) \<and>
        r = [joined ta (map A S), joined tb (map B S), joined tc (map C S)])"
  (is "?l \<longleftrightarrow> ?r")
proof
  assume ?l
  then obtain a b c where
    a: "np_concatenate (map A S) = Inr a" and
    b: "np_concatenate (map B S) = Inr b" and
    c: "np_concatenate (map C S) = Inr c" and
    r: "r = [newaxis a, newaxis b, newaxis c]"
    using every_third_triples0 [of A B C S] every_third_triples1 [of A B C S]
      every_third_triples2 [of A B C S]
    by (auto simp: slice3_def numeral_2_eq_2 split: sum.splits)
  then show ?r by (auto simp: np_concatenate_Inr_iff)
next
  assume ?r
  then obtain ta tb tc where
    "conformable ta (map A S)" "conformable tb (map B S)" "conformable tc (map C S)"
    and r: "r = [joined ta (map A S), joined tb (map B S), joined tc (map C S)]"
    by blast
  then show ?l
    using every_third_triples0 [of A B C S] every_third_triples1 [of A B C S]
      every_third_triples2 [of A B C S]
    by (simp add: slice3_def numeral_2_eq_2 np_concatenate_conformable joined_newaxis)
qed

lemma get_view_mats_Inr_iff:
  assumes "\<forall>s \<in> set S. view_getter_returns elemap mat s [A s, B s, C s]"
  shows "get_view_mats S mat elemap = Inr r \<longleftrightarrow>
     (\<forall>p \<in> set elemap. view_mat_getters (snd p) mat \<noteq> None) \<and>
     (\<exists>ta tb tc. conformable ta (map A S) \<and> conformable tb (map B S) \<and> conformable tc (map C S) \<and>
        r = [joined ta (map A S), joined tb (map B S), joined tc (map C S)])"
proof (cases "viewmatmap_of elemap mat")
  case (Inl e)
  then have "\<exists>p \<in> set elemap. view_mat_getters (snd p) mat = None"
    using viewmatmap_of_Inl_iff [of elemap mat] by blast
  with Inl show ?thesis by (auto simp: get_view_mats_def)
next
  case (Inr vm)
  then have all: "\<forall>p \<in> set elemap. view_mat_getters (snd p) mat \<noteq> None"
    using viewmatmap_of_Inl_iff [of elemap mat] by auto
  have "gather_scal vm S [] = Inr (concat (map (\<lambda>s. [A s, B s, C s]) S))"
    using gather_scal_returns [OF Inr assms, of "[]"] by simp
  with Inr all show ?thesis
    using scal_v_of_triples [of A B C S r] by (simp add: get_view_mats_def)
qed

lemma get_view_mats_AttributeError_iff:
  "(\<exists>m. get_view_mats S mat elemap = Inl (AttributeError m)) \<longleftrightarrow>
     (\<exists>p \<in> set elemap. view_mat_getters (snd p) mat = None)"
proof (cases "viewmatmap_of elemap mat")
  case (Inl e)
  then show ?thesis
    using viewmatmap_of_Inl_iff [of elemap mat] viewmatmap_of_Inl [OF Inl]
    by (auto simp: get_view_mats_def)
next
  case (Inr vm)
  then have all: "\<not> (\<exists>p \<in> set elemap. view_mat_getters (snd p) mat = None)"
    using viewmatmap_of_Inl_iff [of elemap mat] by auto
  have "get_view_mats S mat elemap \<noteq> Inl (AttributeError m)" for m
  proof (cases "gather_scal vm S []")
    case (Inl e)
    then show ?thesis
      using Inr gather_scal_Inl [OF Inl] by (auto simp: get_view_mats_def)
  next
    case scal: (Inr scal)
    show ?thesis
      using Inr scal scal_v_of_Inl [of scal "[0, 1, 2]" "AttributeError m"]
      by (auto simp only: get_view_mats_def sum.case error.distinct)
  qed
  with all show ?thesis by blast
qed

lemma pnorms_of_returns:
  "\<forall>s \<in> set S. pnorm_getter_returns sel elemap s (M s) \<Longrightarrow>
     pnorms_of sel name S elemap = Inr (map M S)"
  by (induction sel name S elemap rule: pnorms_of.induct)
     (auto simp: pnorm_getter_returns_def split: option.splits)

lemma conformable_unique:
  "conformable t arrs \<Longrightarrow> conformable t' arrs \<Longrightarrow> t = t'"
  by (cases arrs) (auto simp: conformable_def split: list.splits)

lemma pnorm_mat_Inr_iff:
  assumes "pnorms_of sel name S elemap = Inr (map M S)"
  shows "(case pnorms_of sel name S elemap of
            Inl e \<Rightarrow> Inl e
          | Inr ps \<Rightarrow> (case np_concatenate ps of Inl e \<Rightarrow> Inl e | Inr a \<Rightarrow> Inr (newaxis a))) = Inr r \<longleftrightarrow>
     (\<exists>tm. conformable tm (map M S) \<and> r = joined tm (map M S))"
  (is "?l \<longleftrightarrow> ?r")
proof
  assume ?l
  then obtain a where "np_concatenate (map M S) = Inr a" "r = newaxis a"
    using assms by (auto split: sum.splits)
  then show ?r by (auto simp: np_concatenate_Inr_iff)
next
  assume ?r
  then show ?l
    using assms by (auto simp: np_concatenate_conformable joined_newaxis)
qed

lemma get_mag_pnorm_mat_Inr_iff:
  assumes "\<forall>s \<in> set S. pnorm_getter_returns get_mag_pnorms_for_inter elemap s (M s)"
  shows "get_mag_pnorm_mat S elemap = Inr r \<longleftrightarrow>
     (\<exists>tm. conformable tm (map M S) \<and> r = joined tm (map M S))"
  unfolding get_mag_pnorm_mat_def
  by (rule pnorm_mat_Inr_iff) (rule pnorms_of_returns [OF assms])

lemma get_norm_pnorm_mat_Inr_iff:
  assumes "\<forall>s \<in> set S. pnorm_getter_returns get_norm_pnorms_for_inter elemap s (U s)"
  shows "get_norm_pnorm_mat S elemap = Inr r \<longleftrightarrow>
     (\<exists>tu. conformable tu (map U S) \<and> r = joined tu (map U S))"
  unfolding get_norm_pnorm_mat_def
  by (rule pnorm_mat_Inr_iff) (rule pnorms_of_returns [OF assms])

section \<open>Running the constructors\<close>

lemma bindM_Inr_iff:
  "bindM m k w = (Inr r, w'') \<longleftrightarrow> (\<exists>x w'. m w = (Inr x, w') \<and> k x w' = (Inr r, w''))"
  by (auto simp: bindM_def split: prod.splits sum.splits)

lemma liftM_Inr_iff: "liftM x w = (Inr r, w') \<longleftrightarrow> x = Inr r \<and> w' = w"
  by (auto simp: liftM_def)

lemma setattr_Inr_iff:
  "setattr name v w = (Inr u, w') \<longleftrightarrow> w' = ((fst w)(name \<mapsto> v), snd w)"
  by (auto simp: setattr_def)

lemma getattr_Inr_iff:
  "getattr name w = (Inr v, w') \<longleftrightarrow> fst w name = Some v \<and> w' = w"
  by (auto simp: getattr_def split: option.splits)

lemma be_view_Inr_iff:
  "be_view mats vlen tags w = (Inr ob, w') \<longleftrightarrow>
     ob = View (length (snd w)) mats vlen tags \<and> w' = (fst w, snd w @ [ob])"
  by (auto simp: be_view_def Let_def)

lemma be_mpi_view_Inr_iff:
  "be_mpi_view mats vlen tags w = (Inr ob, w') \<longleftrightarrow>
     ob = MPIView (length (snd w)) mats vlen tags \<and> w' = (fst w, snd w @ [ob])"
  by (auto simp: be_mpi_view_def Let_def)

lemma be_const_matrix_Inr_iff:
  "be_const_matrix arr tags w = (Inr ob, w') \<longleftrightarrow>
     ob = ConstMatrix (length (snd w)) arr tags \<and> w' = (fst w, snd w @ [ob])"
  by (auto simp: be_const_matrix_def Let_def)

lemmas act_Inr_iffs = bindM_Inr_iff liftM_Inr_iff setattr_Inr_iff getattr_Inr_iff
  be_view_Inr_iff be_mpi_view_Inr_iff be_const_matrix_Inr_iff

lemma BaseInterfaces_init_Inr_iff:
  "BaseInterfaces_init elemap cfg w = (Inr u, w') \<longleftrightarrow>
     (\<exists>ele. first_value elemap = Inr ele \<and>
        w' = ((fst w)(''_be'' \<mapsto> PBackend, ''_cfg'' \<mapsto> PCfg cfg,
                      ''ndims'' \<mapsto> PInt (ndims ele), ''nvars'' \<mapsto> PInt (nvars ele)), snd w))"
  by (auto simp: BaseInterfaces_init_def act_Inr_iffs)

lemma BaseInternalInterfaces_init_Inr_iff:
  "BaseInternalInterfaces_init lhs rhs elemap cfg w = (Inr u, w') \<longleftrightarrow>
     (\<exists>ele sl sr ml mr ul.
        first_value elemap = Inr ele \<and>
        get_view_mats lhs ''get_scal_fpts0_for_inter'' elemap = Inr sl \<and>
        get_view_mats rhs ''get_scal_fpts0_for_inter'' elemap = Inr sr \<and>
        get_mag_pnorm_mat lhs elemap = Inr ml \<and>
        get_mag_pnorm_mat rhs elemap = Inr mr \<and>
        get_norm_pnorm_mat lhs elemap = Inr ul \<and>
        w' = ((fst w)(''_be'' \<mapsto> PBackend, ''_cfg'' \<mapsto> PCfg cfg,
                ''ndims'' \<mapsto> PInt (ndims ele), ''nvars'' \<mapsto> PInt (nvars ele),
                ''_scal0_lhs'' \<mapsto> View (length (snd w)) sl (PInt (nvars ele)) {''nopad''},
                ''_scal0_rhs'' \<mapsto> View (length (snd w) + 1) sr (PInt (nvars ele)) {''nopad''},
                ''_mag_pnorm_lhs'' \<mapsto> ConstMatrix (length (snd w) + 2) ml {''nopad''},
                ''_mag_pnorm_rhs'' \<mapsto> ConstMatrix (length (snd w) + 3) mr {''nopad''},
                ''_norm_pnorm_lhs'' \<mapsto> ConstMatrix (length (snd w) + 4) ul {''nopad''}),
              snd w @ [View (length (snd w)) sl (PInt (nvars ele)) {''nopad''},
                       View (length (snd w) + 1) sr (PInt (nvars ele)) {''nopad''},
                       ConstMatrix (length (snd w) + 2) ml {''nopad''},
                       ConstMatrix (length (snd w) + 3) mr {''nopad''},
                       ConstMatrix (length (snd w) + 4) ul {''nopad''}]))"
  unfolding BaseInternalInterfaces_init_def
  by (simp add: act_Inr_iffs BaseInterfaces_init_Inr_iff) (auto simp: numeral_eq_Suc)

lemma be_mpi_matrix_for_view_Inr_iff:
  "be_mpi_matrix_for_view v w = (Inr ob, w') \<longleftrightarrow>
     (\<exists>oid mats vlen tags. v = MPIView oid mats vlen tags \<and>
        ob = MPIMatrix (length (snd w)) (view_npoints mats) vlen \<and> w' = (fst w, snd w @ [ob]))"
  by (cases v) (auto simp: be_mpi_matrix_for_view_def Let_def)

lemma BaseMPIInterfaces_init_Inr_iff:
  "BaseMPIInterfaces_init lhs rhsrank elemap cfg w = (Inr u, w') \<longleftrightarrow>
     (\<exists>ele sl ml ul.
        first_value elemap = Inr ele \<and>
        get_view_mats lhs ''get_scal_fpts0_for_inter'' elemap = Inr sl \<and>
        get_mag_pnorm_mat lhs elemap = Inr ml \<and>
        get_norm_pnorm_mat lhs elemap = Inr ul \<and>
        w' = ((fst w)(''_be'' \<mapsto> PBackend, ''_cfg'' \<mapsto> PCfg cfg,
                ''ndims'' \<mapsto> PInt (ndims ele), ''nvars'' \<mapsto> PInt (nvars ele),
                ''_rhsrank'' \<mapsto> PInt rhsrank,
                ''_scal0_lhs'' \<mapsto> MPIView (length (snd w)) sl (PInt (nvars ele)) {''nopad''},
                ''_scal0_rhs'' \<mapsto> MPIMatrix (length (snd w) + 1) (view_npoints sl) (PInt (nvars ele)),
                ''_mag_pnorm_lhs'' \<mapsto> ConstMatrix (length (snd w) + 2) ml {''nopad''},
                ''_norm_pnorm_lhs'' \<mapsto> ConstMatrix (length (snd w) + 3) ul {''nopad''}),
              snd w @ [MPIView (length (snd w)) sl (PInt (nvars ele)) {''nopad''},
                       MPIMatrix (length (snd w) + 1) (view_npoints sl) (PInt (nvars ele)),
                       ConstMatrix (length (snd w) + 2) ml {''nopad''},
                       ConstMatrix (length (snd w) + 3) ul {''nopad''}]))"
  unfolding BaseMPIInterfaces_init_def
  by (simp add: act_Inr_iffs BaseInterfaces_init_Inr_iff be_mpi_matrix_for_view_Inr_iff)
     (auto simp: numeral_eq_Suc)

lemma NavierStokesInternalInterfaces_init_Inr_iff:
  "NavierStokesInternalInterfaces_init lhs rhs elemap cfg w = (Inr u, w') \<longleftrightarrow>
     (\<exists>w1 tl tr vlen.
        BaseInternalInterfaces_init lhs rhs elemap cfg w = (Inr (), w1) \<and>
        get_view_mats lhs ''get_scal_fpts1_for_inter'' elemap = Inr tl \<and>
        get_view_mats rhs ''get_scal_fpts1_for_inter'' elemap = Inr tr \<and>
        fst w1 ''nvars'' = Some vlen \<and>
        w' = ((fst w1)(''_scal1_lhs'' \<mapsto> View (length (snd w1)) tl vlen {''nopad''},
                       ''_scal1_rhs'' \<mapsto> View (length (snd w1) + 1) tr vlen {''nopad''}),
              snd w1 @ [View (length (snd w1)) tl vlen {''nopad''},
                        View (length (snd w1) + 1) tr vlen {''nopad''}]))"
  unfolding NavierStokesInternalInterfaces_init_def
  by (simp add: act_Inr_iffs) auto

lemma NavierStokesMPIInterfaces_init_Inr_iff:
  "NavierStokesMPIInterfaces_init lhs rhsrank elemap cfg w = (Inr u, w') \<longleftrightarrow>
     (\<exists>w1 tl vlen.
        BaseMPIInterfaces_init lhs rhsrank elemap cfg w = (Inr (), w1) \<and>
        get_view_mats lhs ''get_scal_fpts1_for_inter'' elemap = Inr tl \<and>
        fst w1 ''nvars'' = Some vlen \<and>
        w' = ((fst w1)(''_scal1_lhs'' \<mapsto> MPIView (length (snd w1)) tl vlen {''nopad''}),
              snd w1 @ [MPIView (length (snd w1)) tl vlen {''nopad''}]))"
  unfolding NavierStokesMPIInterfaces_init_def
  by (simp add: act_Inr_iffs)

lemma instantiate_Inr_iff:
  "instantiate init be = (Inr self, be') \<longleftrightarrow> init (Map.empty, be) = (Inr (), (self, be'))"
  by (auto simp: instantiate_def split: prod.splits sum.splits)

lemma instantiate_Inl_iff:
  "instantiate init be = (Inl e, be') \<longleftrightarrow> (\<exists>self. init (Map.empty, be) = (Inl e, (self, be')))"
  by (auto simp: instantiate_def split: prod.splits sum.splits)


lemmas ex_defs = ex_lhs_def ex_rhs_def ex_elemap_def ex_ele_def ex_getter_def ex_cfg_def
  ex_frags_def ex_bare_def
lemmas array_defs = slice3_def np_concatenate_def newaxis_def axis0_def npoints_def
lemmas act_defs = bindM_def liftM_def returnM_def setattr_def getattr_def be_view_def be_mpi_view_def
  be_const_matrix_def be_mpi_matrix_for_view_def be_kernel_def view_npoints_def Let_def

lemma BaseInternalInterfaces_init_InrE:
  assumes "BaseInternalInterfaces_init lhs rhs elemap cfg (Map.empty, be) = (Inr (), (self0, be0))"
  obtains ele sl sr ml mr ul where
      "first_value elemap = Inr ele"
      "get_view_mats lhs ''get_scal_fpts0_for_inter'' elemap = Inr sl"
      "get_view_mats rhs ''get_scal_fpts0_for_inter'' elemap = Inr sr"
      "get_mag_pnorm_mat lhs elemap = Inr ml"
      "get_mag_pnorm_mat rhs elemap = Inr mr"
      "get_norm_pnorm_mat lhs elemap = Inr ul" 
      "self0 = [''_be'' \<mapsto> PBackend, ''_cfg'' \<mapsto> PCfg cfg,
                ''ndims'' \<mapsto> PInt (ndims ele), ''nvars'' \<mapsto> PInt (nvars ele),
                ''_scal0_lhs'' \<mapsto> View (length be) sl (PInt (nvars ele)) {''nopad''},
                ''_scal0_rhs'' \<mapsto> View (length be + 1) sr (PInt (nvars ele)) {''nopad''},
                ''_mag_pnorm_lhs'' \<mapsto> ConstMatrix (length be + 2) ml {''nopad''},
                ''_mag_pnorm_rhs'' \<mapsto> ConstMatrix (length be + 3) mr {''nopad''},
                ''_norm_pnorm_lhs'' \<mapsto> ConstMatrix (length be + 4) ul {''nopad''}]"
      "be0 = be @ [View (length be) sl (PInt (nvars ele)) {''nopad''},
                 View (length be + 1) sr (PInt (nvars ele)) {''nopad''},
                 ConstMatrix (length be + 2) ml {''nopad''},
                 ConstMatrix (length be + 3) mr {''nopad''},
                 ConstMatrix (length be + 4) ul {''nopad''}]"
  using assms BaseInternalInterfaces_init_Inr_iff [of lhs rhs elemap cfg "(Map.empty, be)" "()" "(self0, be0)"]
  by (elim iffE impE exE conjE) (simp_all only: fst_conv snd_conv prod.inject, blast)


lemma const_matrix_attrs:
  assumes self: "\<And>n. n \<noteq> ''_scal1_lhs'' \<Longrightarrow> n \<noteq> ''_scal1_rhs'' \<Longrightarrow> self n = self0 n"
    and sc1: "\<forall>v. self ''_scal1_lhs'' = Some v \<longrightarrow> \<not> is_const_matrix v"
    and sc2: "\<forall>v. self ''_scal1_rhs'' = Some v \<longrightarrow> \<not> is_const_matrix v"
    and self0: "self0 = [''_be'' \<mapsto> PBackend, ''_cfg'' \<mapsto> PCfg cfg,
                ''ndims'' \<mapsto> PInt nd, ''nvars'' \<mapsto> PInt nv,
                ''_scal0_lhs'' \<mapsto> View i0 sl vlen t0,
                ''_scal0_rhs'' \<mapsto> View i1 sr vlen t1,
                ''_mag_pnorm_lhs'' \<mapsto> ConstMatrix i2 ml t2,
                ''_mag_pnorm_rhs'' \<mapsto> ConstMatrix i3 mr t3,
                ''_norm_pnorm_lhs'' \<mapsto> ConstMatrix i4 ul t4]"
  shows "{n. \<exists>v. self n = Some v \<and> is_const_matrix v} =
       {''_mag_pnorm_lhs'', ''_mag_pnorm_rhs'', ''_norm_pnorm_lhs''}"
proof (rule set_eqI)
  fix n
  show "n \<in> {n. \<exists>v. self n = Some v \<and> is_const_matrix v} \<longleftrightarrow>
        n \<in> {''_mag_pnorm_lhs'', ''_mag_pnorm_rhs'', ''_norm_pnorm_lhs''}"
  proof (cases "n = ''_scal1_lhs'' \<or> n = ''_scal1_rhs''")
    case True
    then show ?thesis
    proof
      assume n: "n = ''_scal1_lhs''"
      show ?thesis using sc1 by (simp add: n)
    next
      assume n: "n = ''_scal1_rhs''"
      show ?thesis using sc2 by (simp add: n)
    qed
  next
    case False
    then have "self n = self0 n" using self by simp
    then show ?thesis
      by (simp add: self0 is_const_matrix_def)
  qed
qed


lemma npoints_joined: "npoints (joined trail arrs) = sum_list (map axis0 arrs)"
  by (simp add: npoints_def joined_def)


lemma internal_instantiate_cases:
  assumes "instantiate (BaseInternalInterfaces_init lhs rhs elemap cfg) be = (Inr self, be') \<or>
           instantiate (NavierStokesInternalInterfaces_init lhs rhs elemap cfg) be = (Inr self, be')"
  obtains (built) ele sl sr ml mr ul extra where
    "first_value elemap = Inr ele"
    "get_view_mats lhs ''get_scal_fpts0_for_inter'' elemap = Inr sl"
    "get_view_mats rhs ''get_scal_fpts0_for_inter'' elemap = Inr sr"
    "get_mag_pnorm_mat lhs elemap = Inr ml"
    "get_mag_pnorm_mat rhs elemap = Inr mr"
    "get_norm_pnorm_mat lhs elemap = Inr ul"
    "self ''_scal0_lhs'' = Some (View (length be) sl (PInt (nvars ele)) {''nopad''})"
    "self ''_scal0_rhs'' = Some (View (length be + 1) sr (PInt (nvars ele)) {''nopad''})"
    "self ''_mag_pnorm_lhs'' = Some (ConstMatrix (length be + 2) ml {''nopad''})"
    "self ''_mag_pnorm_rhs'' = Some (ConstMatrix (length be + 3) mr {''nopad''})"
    "self ''_norm_pnorm_lhs'' = Some (ConstMatrix (length be + 4) ul {''nopad''})"
    "be' = be @ [View (length be) sl (PInt (nvars ele)) {''nopad''},
                 View (length be + 1) sr (PInt (nvars ele)) {''nopad''},
                 ConstMatrix (length be + 2) ml {''nopad''},
                 ConstMatrix (length be + 3) mr {''nopad''},
                 ConstMatrix (length be + 4) ul {''nopad''}] @ extra"
    "filter is_const_matrix extra = []"
    "{n. \<exists>v. self n = Some v \<and> is_const_matrix v} =
       {''_mag_pnorm_lhs'', ''_mag_pnorm_rhs'', ''_norm_pnorm_lhs''}"
    "self ''ndims'' = Some (PInt (ndims ele))"
    "self ''nvars'' = Some (PInt (nvars ele))"
proof -
  have base: thesis
    if b: "BaseInternalInterfaces_init lhs rhs elemap cfg (Map.empty, be) = (Inr (), (self0, be0))"
      and self: "\<And>n. n \<noteq> ''_scal1_lhs'' \<Longrightarrow> n \<noteq> ''_scal1_rhs'' \<Longrightarrow> self n = self0 n"
      and sc1: "\<forall>v. self ''_scal1_lhs'' = Some v \<longrightarrow> \<not> is_const_matrix v"
      and sc2: "\<forall>v. self ''_scal1_rhs'' = Some v \<longrightarrow> \<not> is_const_matrix v"
      and be': "be' = be0 @ extra" and extra: "filter is_const_matrix extra = []"
    for self0 be0 extra
  proof -
    from b obtain ele sl sr ml mr ul where
      f: "first_value elemap = Inr ele"
      "get_view_mats lhs ''get_scal_fpts0_for_inter'' elemap = Inr sl"
      "get_view_mats rhs ''get_scal_fpts0_for_inter'' elemap = Inr sr"
      "get_mag_pnorm_mat lhs elemap = Inr ml"
      "get_mag_pnorm_mat rhs elemap = Inr mr"
      "get_norm_pnorm_mat lhs elemap = Inr ul" and
      self0: "self0 = [''_be'' \<mapsto> PBackend, ''_cfg'' \<mapsto> PCfg cfg,
                ''ndims'' \<mapsto> PInt (ndims ele), ''nvars'' \<mapsto> PInt (nvars ele),
                ''_scal0_lhs'' \<mapsto> View (length be) sl (PInt (nvars ele)) {''nopad''},
                ''_scal0_rhs'' \<mapsto> View (length be + 1) sr (PInt (nvars ele)) {''nopad''},
                ''_mag_pnorm_lhs'' \<mapsto> ConstMatrix (length be + 2) ml {''nopad''},
                ''_mag_pnorm_rhs'' \<mapsto> ConstMatrix (length be + 3) mr {''nopad''},
                ''_norm_pnorm_lhs'' \<mapsto> ConstMatrix (length be + 4) ul {''nopad''}]" and
      be0: "be0 = be @ [View (length be) sl (PInt (nvars ele)) {''nopad''},
                 View (length be + 1) sr (PInt (nvars ele)) {''nopad''},
                 ConstMatrix (length be + 2) ml {''nopad''},
                 ConstMatrix (length be + 3) mr {''nopad''},
                 ConstMatrix (length be + 4) ul {''nopad''}]"
      by (rule BaseInternalInterfaces_init_InrE)
    have names: "{n. \<exists>v. self n = Some v \<and> is_const_matrix v} =
       {''_mag_pnorm_lhs'', ''_mag_pnorm_rhs'', ''_norm_pnorm_lhs''}"
      by (rule const_matrix_attrs [OF self sc1 sc2 self0])
    show thesis
    proof (rule built [of ele sl sr ml mr ul extra])
      show "self ''_scal0_lhs'' = Some (View (length be) sl (PInt (nvars ele)) {''nopad''})"
        by (simp add: self self0)
      show "self ''_scal0_rhs'' = Some (View (length be + 1) sr (PInt (nvars ele)) {''nopad''})"
        by (simp add: self self0)
      show "self ''_mag_pnorm_lhs'' = Some (ConstMatrix (length be + 2) ml {''nopad''})"
        by (simp add: self self0)
      show "self ''_mag_pnorm_rhs'' = Some (ConstMatrix (length be + 3) mr {''nopad''})"
        by (simp add: self self0)
      show "self ''_norm_pnorm_lhs'' = Some (ConstMatrix (length be + 4) ul {''nopad''})"
        by (simp add: self self0)
      show "be' = be @ [View (length be) sl (PInt (nvars ele)) {''nopad''},
                 View (length be + 1) sr (PInt (nvars ele)) {''nopad''},
                 ConstMatrix (length be + 2) ml {''nopad''},
                 ConstMatrix (length be + 3) mr {''nopad''},
                 ConstMatrix (length be + 4) ul {''nopad''}] @ extra"
        by (simp add: be' be0)
      show "self ''ndims'' = Some (PInt (ndims ele))"
        by (simp add: self self0)
      show "self ''nvars'' = Some (PInt (nvars ele))"
        by (simp add: self self0)
    qed (fact f extra names)+
  qed
  from assms show thesis
  proof
    assume "instantiate (BaseInternalInterfaces_init lhs rhs elemap cfg) be = (Inr self, be')"
    then have b: "BaseInternalInterfaces_init lhs rhs elemap cfg (Map.empty, be) = (Inr (), (self, be'))"
      by (simp add: instantiate_Inr_iff)
    then obtain ele sl sr ml mr ul where
      "first_value elemap = Inr ele"
      "get_view_mats lhs ''get_scal_fpts0_for_inter'' elemap = Inr sl"
      "get_view_mats rhs ''get_scal_fpts0_for_inter'' elemap = Inr sr"
      "get_mag_pnorm_mat lhs elemap = Inr ml"
      "get_mag_pnorm_mat rhs elemap = Inr mr"
      "get_norm_pnorm_mat lhs elemap = Inr ul" and
      self: "self = [''_be'' \<mapsto> PBackend, ''_cfg'' \<mapsto> PCfg cfg,
                ''ndims'' \<mapsto> PInt (ndims ele), ''nvars'' \<mapsto> PInt (nvars ele),
                ''_scal0_lhs'' \<mapsto> View (length be) sl (PInt (nvars ele)) {''nopad''},
                ''_scal0_rhs'' \<mapsto> View (length be + 1) sr (PInt (nvars ele)) {''nopad''},
                ''_mag_pnorm_lhs'' \<mapsto> ConstMatrix (length be + 2) ml {''nopad''},
                ''_mag_pnorm_rhs'' \<mapsto> ConstMatrix (length be + 3) mr {''nopad''},
                ''_norm_pnorm_lhs'' \<mapsto> ConstMatrix (length be + 4) ul {''nopad''}]" and
      "be' = be @ [View (length be) sl (PInt (nvars ele)) {''nopad''},
                 View (length be + 1) sr (PInt (nvars ele)) {''nopad''},
                 ConstMatrix (length be + 2) ml {''nopad''},
                 ConstMatrix (length be + 3) mr {''nopad''},
                 ConstMatrix (length be + 4) ul {''nopad''}]"
      by (rule BaseInternalInterfaces_init_InrE)
    have none: "self ''_scal1_lhs'' = None" "self ''_scal1_rhs'' = None"
      by (simp_all add: self)
    show thesis
      by (rule base [OF b, of "[]"]) (simp_all add: none)
  next
    assume "instantiate (NavierStokesInternalInterfaces_init lhs rhs elemap cfg) be = (Inr self, be')"
    then have "NavierStokesInternalInterfaces_init lhs rhs elemap cfg (Map.empty, be) = (Inr (), (self, be'))"
      by (simp add: instantiate_Inr_iff)
    then obtain w1 tl tr vlen where
      b: "BaseInternalInterfaces_init lhs rhs elemap cfg (Map.empty, be) = (Inr (), w1)" and
      w': "(self, be') = ((fst w1)(''_scal1_lhs'' \<mapsto> View (length (snd w1)) tl vlen {''nopad''},
                       ''_scal1_rhs'' \<mapsto> View (length (snd w1) + 1) tr vlen {''nopad''}),
              snd w1 @ [View (length (snd w1)) tl vlen {''nopad''},
                        View (length (snd w1) + 1) tr vlen {''nopad''}])"
      unfolding NavierStokesInternalInterfaces_init_Inr_iff by blast
    from w' have self: "self = (fst w1)(''_scal1_lhs'' \<mapsto> View (length (snd w1)) tl vlen {''nopad''},
                       ''_scal1_rhs'' \<mapsto> View (length (snd w1) + 1) tr vlen {''nopad''})"
      and be': "be' = snd w1 @ [View (length (snd w1)) tl vlen {''nopad''},
                        View (length (snd w1) + 1) tr vlen {''nopad''}]"
      by simp_all
    from b have b': "BaseInternalInterfaces_init lhs rhs elemap cfg (Map.empty, be) = (Inr (), (fst w1, snd w1))"
      by simp
    show thesis
      by (rule base [OF b', of "[View (length (snd w1)) tl vlen {''nopad''},
                        View (length (snd w1) + 1) tr vlen {''nopad''}]"])
         (simp_all add: self be' is_const_matrix_def)
  qed
qed

lemmas ex_defs2 = ex_defs ex_mag_def ex_norm_def ex_rhs1_def
lemmas init_defs = instantiate_def BaseInternalInterfaces_init_def BaseInterfaces_init_def
  BaseMPIInterfaces_init_def NavierStokesInternalInterfaces_init_def
  NavierStokesMPIInterfaces_init_def first_value_def
  get_view_mats_def get_mag_pnorm_mat_def get_norm_pnorm_mat_def

lemma built_instance: "\<not> isl (fst r) \<Longrightarrow> r = (Inr (the_instance r), snd r)"
  by (cases r; cases "fst r") (simp_all add: the_instance_def)

lemma ex_internal_ok: "\<not> isl (fst ex_internal)"
  by (simp add: ex_internal_def init_defs act_defs ex_defs2 array_defs)

lemma ex_internal_uneven_ok: "\<not> isl (fst ex_internal_uneven)"
  by (simp add: ex_internal_uneven_def init_defs act_defs ex_defs2 array_defs)

lemma ex_views:
  "\<forall>s \<in> set ex_lhs \<union> set ex_rhs \<union> set ex_rhs1.
     view_getter_returns ex_elemap ''get_scal_fpts0_for_inter'' s
       [ex_frags s ! 0, ex_frags s ! 1, ex_frags s ! 2]"
  by (simp add: ex_defs2 view_getter_returns_def)

lemma ex_mags:
  "\<forall>s \<in> set ex_lhs \<union> set ex_rhs \<union> set ex_rhs1.
     pnorm_getter_returns get_mag_pnorms_for_inter ex_elemap s (ex_mag s)"
  by (simp add: ex_defs2 pnorm_getter_returns_def)

lemma ex_norms:
  "\<forall>s \<in> set ex_lhs \<union> set ex_rhs \<union> set ex_rhs1.
     pnorm_getter_returns get_norm_pnorms_for_inter ex_elemap s (ex_norm s)"
  by (simp add: ex_defs2 pnorm_getter_returns_def)

lemma first_value_of_side:
  assumes "view_getter_returns elemap mat s frs"
  obtains ele where "first_value elemap = Inr ele"
proof (cases elemap)
  case Nil
  with assms show ?thesis
    by (simp add: view_getter_returns_def split: prod.splits)
next
  case (Cons p rest)
  then show ?thesis
    by (intro that [of "snd p"]) (simp add: first_value_def split: prod.splits)
qed

lemma BaseMPIInterfaces_init_InrE:
  assumes "BaseMPIInterfaces_init lhs rhsrank elemap cfg (Map.empty, be) = (Inr (), (self0, be0))"
  obtains ele sl ml ul where
    "first_value elemap = Inr ele"
    "get_view_mats lhs ''get_scal_fpts0_for_inter'' elemap = Inr sl"
    "get_mag_pnorm_mat lhs elemap = Inr ml"
    "get_norm_pnorm_mat lhs elemap = Inr ul"
    "self0 = [''_be'' \<mapsto> PBackend, ''_cfg'' \<mapsto> PCfg cfg,
                ''ndims'' \<mapsto> PInt (ndims ele), ''nvars'' \<mapsto> PInt (nvars ele),
                ''_rhsrank'' \<mapsto> PInt rhsrank,
                ''_scal0_lhs'' \<mapsto> MPIView (length be) sl (PInt (nvars ele)) {''nopad''},
                ''_scal0_rhs'' \<mapsto> MPIMatrix (length be + 1) (view_npoints sl) (PInt (nvars ele)),
                ''_mag_pnorm_lhs'' \<mapsto> ConstMatrix (length be + 2) ml {''nopad''},
                ''_norm_pnorm_lhs'' \<mapsto> ConstMatrix (length be + 3) ul {''nopad''}]"
    "be0 = be @ [MPIView (length be) sl (PInt (nvars ele)) {''nopad''},
                 MPIMatrix (length be + 1) (view_npoints sl) (PInt (nvars ele)),
                 ConstMatrix (length be + 2) ml {''nopad''},
                 ConstMatrix (length be + 3) ul {''nopad''}]"
  using assms BaseMPIInterfaces_init_Inr_iff [of lhs rhsrank elemap cfg "(Map.empty, be)" "()" "(self0, be0)"]
  by (elim iffE impE exE conjE) (simp_all only: fst_conv snd_conv prod.inject, blast)

lemma mpi_instantiate_cases:
  assumes "instantiate (BaseMPIInterfaces_init lhs rhsrank elemap cfg) be = (Inr self, be') \<or>
           instantiate (NavierStokesMPIInterfaces_init lhs rhsrank elemap cfg) be = (Inr self, be')"
  obtains (built) ele sl extra where
    "first_value elemap = Inr ele"
    "get_view_mats lhs ''get_scal_fpts0_for_inter'' elemap = Inr sl"
    "self ''_be'' = Some PBackend"
    "self ''ndims'' = Some (PInt (ndims ele))"
    "self ''nvars'' = Some (PInt (nvars ele))"
    "self ''_rhsrank'' = Some (PInt rhsrank)"
    "self ''MPI_TAG'' = None"
    "self ''_scal0_lhs'' = Some (MPIView (length be) sl (PInt (nvars ele)) {''nopad''})"
    "self ''_scal0_rhs'' = Some (MPIMatrix (length be + 1) (view_npoints sl) (PInt (nvars ele)))"
    "be' = be @ [MPIView (length be) sl (PInt (nvars ele)) {''nopad''},
                 MPIMatrix (length be + 1) (view_npoints sl) (PInt (nvars ele))] @ extra"
proof -
  have base: thesis
    if b: "BaseMPIInterfaces_init lhs rhsrank elemap cfg (Map.empty, be) = (Inr (), (self0, be0))"
      and self: "\<And>n. n \<noteq> ''_scal1_lhs'' \<Longrightarrow> self n = self0 n"
      and be': "be' = be0 @ extra"
    for self0 be0 extra
  proof -
    from b obtain ele sl ml ul where
      f: "first_value elemap = Inr ele"
      "get_view_mats lhs ''get_scal_fpts0_for_inter'' elemap = Inr sl"
      "get_mag_pnorm_mat lhs elemap = Inr ml"
      "get_norm_pnorm_mat lhs elemap = Inr ul" and
      self0: "self0 = [''_be'' \<mapsto> PBackend, ''_cfg'' \<mapsto> PCfg cfg,
                ''ndims'' \<mapsto> PInt (ndims ele), ''nvars'' \<mapsto> PInt (nvars ele),
                ''_rhsrank'' \<mapsto> PInt rhsrank,
                ''_scal0_lhs'' \<mapsto> MPIView (length be) sl (PInt (nvars ele)) {''nopad''},
                ''_scal0_rhs'' \<mapsto> MPIMatrix (length be + 1) (view_npoints sl) (PInt (nvars ele)),
                ''_mag_pnorm_lhs'' \<mapsto> ConstMatrix (length be + 2) ml {''nopad''},
                ''_norm_pnorm_lhs'' \<mapsto> ConstMatrix (length be + 3) ul {''nopad''}]" and
      be0: "be0 = be @ [MPIView (length be) sl (PInt (nvars ele)) {''nopad''},
                 MPIMatrix (length be + 1) (view_npoints sl) (PInt (nvars ele)),
                 ConstMatrix (length be + 2) ml {''nopad''},
                 ConstMatrix (length be + 3) ul {''nopad''}]"
      by (rule BaseMPIInterfaces_init_InrE)
    show thesis
    proof (rule built [of ele sl "[ConstMatrix (length be + 2) ml {''nopad''},
                 ConstMatrix (length be + 3) ul {''nopad''}] @ extra"])
      show "self ''_be'' = Some PBackend" by (simp add: self self0)
      show "self ''ndims'' = Some (PInt (ndims ele))" by (simp add: self self0)
      show "self ''nvars'' = Some (PInt (nvars ele))" by (simp add: self self0)
      show "self ''_rhsrank'' = Some (PInt rhsrank)" by (simp add: self self0)
      show "self ''MPI_TAG'' = None" by (simp add: self self0)
      show "self ''_scal0_lhs'' = Some (MPIView (length be) sl (PInt (nvars ele)) {''nopad''})"
        by (simp add: self self0)
      show "self ''_scal0_rhs'' =
          Some (MPIMatrix (length be + 1) (view_npoints sl) (PInt (nvars ele)))"
        by (simp add: self self0)
      show "be' = be @ [MPIView (length be) sl (PInt (nvars ele)) {''nopad''},
                 MPIMatrix (length be + 1) (view_npoints sl) (PInt (nvars ele))] @
              [ConstMatrix (length be + 2) ml {''nopad''},
                 ConstMatrix (length be + 3) ul {''nopad''}] @ extra"
        by (simp add: be' be0)
    qed (fact f)+
  qed
  from assms show thesis
  proof
    assume "instantiate (BaseMPIInterfaces_init lhs rhsrank elemap cfg) be = (Inr self, be')"
    then have b: "BaseMPIInterfaces_init lhs rhsrank elemap cfg (Map.empty, be) = (Inr (), (self, be'))"
      by (simp add: instantiate_Inr_iff)
    show thesis
      by (rule base [OF b, of "[]"]) simp_all
  next
    assume "instantiate (NavierStokesMPIInterfaces_init lhs rhsrank elemap cfg) be = (Inr self, be')"
    then have "NavierStokesMPIInterfaces_init lhs rhsrank elemap cfg (Map.empty, be) = (Inr (), (self, be'))"
      by (simp add: instantiate_Inr_iff)
    then obtain w1 tl vlen where
      b: "BaseMPIInterfaces_init lhs rhsrank elemap cfg (Map.empty, be) = (Inr (), w1)" and
      w': "(self, be') = ((fst w1)(''_scal1_lhs'' \<mapsto> MPIView (length (snd w1)) tl vlen {''nopad''}),
              snd w1 @ [MPIView (length (snd w1)) tl vlen {''nopad''}])"
      unfolding NavierStokesMPIInterfaces_init_Inr_iff by blast
    from w' have self: "self = (fst w1)(''_scal1_lhs'' \<mapsto> MPIView (length (snd w1)) tl vlen {''nopad''})"
      and be': "be' = snd w1 @ [MPIView (length (snd w1)) tl vlen {''nopad''}]"
      by simp_all
    from b have b': "BaseMPIInterfaces_init lhs rhsrank elemap cfg (Map.empty, be) = (Inr (), (fst w1, snd w1))"
      by simp
    show thesis
      by (rule base [OF b', of "[MPIView (length (snd w1)) tl vlen {''nopad''}]"])
         (simp_all add: self be')
  qed
qed

lemmas getter_defs = get_scal_fpts0_pack_kern_def get_scal_fpts0_send_pack_kern_def
  get_scal_fpts0_recv_pack_kern_def get_scal_fpts0_unpack_kern_def
  EulerInternalInterfaces_get_rsolve_kern_def EulerMPIInterfaces_get_rsolve_kern_def
  NavierStokesInternalInterfaces_get_conu_fpts_kern_def
  NavierStokesMPIInterfaces_get_conu_fpts_kern_def getattr_MPI_TAG_def call_get_def
  call_getfloat_def

lemma ex_mpi_ok: "\<not> isl (fst ex_mpi)"
  by (simp add: ex_mpi_def init_defs act_defs ex_defs2 array_defs)

lemma ex_mpi_length: "length (snd ex_mpi) = 4"
  by (simp add: ex_mpi_def init_defs act_defs ex_defs2 array_defs)

lemma ex_mpi_later_ok: "\<not> isl (fst ex_mpi_later)"
  by (simp add: ex_mpi_later_def ex_mpi_def init_defs act_defs ex_defs2 array_defs)

lemma ex_ns_internal_ok: "\<not> isl (fst ex_ns_internal)"
  by (simp add: ex_ns_internal_def init_defs act_defs ex_defs2 array_defs)

lemma ex_ns_mpi_ok: "\<not> isl (fst ex_ns_mpi)"
  by (simp add: ex_ns_mpi_def init_defs act_defs ex_defs2 array_defs)

lemma ns_internal_attrs:
  assumes "instantiate (NavierStokesInternalInterfaces_init lhs rhs elemap cfg) be = (Inr self, be')"
  obtains ele sl sr tl tr where
    "first_value elemap = Inr ele"
    "self ''_be'' = Some PBackend" "self ''ndims'' = Some (PInt (ndims ele))"
    "self ''nvars'' = Some (PInt (nvars ele))"
    "self ''_scal0_lhs'' = Some (View (length be) sl (PInt (nvars ele)) {''nopad''})"
    "self ''_scal0_rhs'' = Some (View (length be + 1) sr (PInt (nvars ele)) {''nopad''})"
    "self ''_scal1_lhs'' = Some (View (length be + 5) tl (PInt (nvars ele)) {''nopad''})"
    "self ''_scal1_rhs'' = Some (View (length be + 6) tr (PInt (nvars ele)) {''nopad''})"
    "self ''_beta'' = None"
proof -
  from assms have "NavierStokesInternalInterfaces_init lhs rhs elemap cfg (Map.empty, be) = (Inr (), (self, be'))"
    by (simp add: instantiate_Inr_iff)
  then obtain w1 tl tr vlen where
    b: "BaseInternalInterfaces_init lhs rhs elemap cfg (Map.empty, be) = (Inr (), w1)" and
    vlen: "fst w1 ''nvars'' = Some vlen" and
    w': "(self, be') = ((fst w1)(''_scal1_lhs'' \<mapsto> View (length (snd w1)) tl vlen {''nopad''},
                     ''_scal1_rhs'' \<mapsto> View (length (snd w1) + 1) tr vlen {''nopad''}),
            snd w1 @ [View (length (snd w1)) tl vlen {''nopad''},
                      View (length (snd w1) + 1) tr vlen {''nopad''}])"
    unfolding NavierStokesInternalInterfaces_init_Inr_iff by blast
  from b have b': "BaseInternalInterfaces_init lhs rhs elemap cfg (Map.empty, be) = (Inr (), (fst w1, snd w1))"
    by simp
  from b' obtain ele sl sr ml mr ul where
      fv: "first_value elemap = Inr ele"
      "get_view_mats lhs ''get_scal_fpts0_for_inter'' elemap = Inr sl"
      "get_view_mats rhs ''get_scal_fpts0_for_inter'' elemap = Inr sr"
      "get_mag_pnorm_mat lhs elemap = Inr ml"
      "get_mag_pnorm_mat rhs elemap = Inr mr"
      "get_norm_pnorm_mat lhs elemap = Inr ul" and
      self0: "fst w1 = [''_be'' \<mapsto> PBackend, ''_cfg'' \<mapsto> PCfg cfg,
                ''ndims'' \<mapsto> PInt (ndims ele), ''nvars'' \<mapsto> PInt (nvars ele),
                ''_scal0_lhs'' \<mapsto> View (length be) sl (PInt (nvars ele)) {''nopad''},
                ''_scal0_rhs'' \<mapsto> View (length be + 1) sr (PInt (nvars ele)) {''nopad''},
                ''_mag_pnorm_lhs'' \<mapsto> ConstMatrix (length be + 2) ml {''nopad''},
                ''_mag_pnorm_rhs'' \<mapsto> ConstMatrix (length be + 3) mr {''nopad''},
                ''_norm_pnorm_lhs'' \<mapsto> ConstMatrix (length be + 4) ul {''nopad''}]" and
      be0: "snd w1 = be @ [View (length be) sl (PInt (nvars ele)) {''nopad''},
                 View (length be + 1) sr (PInt (nvars ele)) {''nopad''},
                 ConstMatrix (length be + 2) ml {''nopad''},
                 ConstMatrix (length be + 3) mr {''nopad''},
                 ConstMatrix (length be + 4) ul {''nopad''}]"
    by (rule BaseInternalInterfaces_init_InrE)
  from vlen have v: "vlen = PInt (nvars ele)"
    by (simp add: self0)
  from w' have self: "self = (fst w1)(''_scal1_lhs'' \<mapsto> View (length (snd w1)) tl vlen {''nopad''},
                     ''_scal1_rhs'' \<mapsto> View (length (snd w1) + 1) tr vlen {''nopad''})"
    by simp
  show thesis
    by (rule that [of ele sl sr tl tr]) (simp_all add: fv self self0 be0 v)
qed

lemma ns_mpi_attrs:
  assumes "instantiate (NavierStokesMPIInterfaces_init lhs rhsrank elemap cfg) be = (Inr self, be')"
  obtains ele sl tl where
    "first_value elemap = Inr ele"
    "self ''_be'' = Some PBackend" "self ''ndims'' = Some (PInt (ndims ele))"
    "self ''nvars'' = Some (PInt (nvars ele))"
    "self ''_scal0_lhs'' = Some (MPIView (length be) sl (PInt (nvars ele)) {''nopad''})"
    "self ''_scal0_rhs'' = Some (MPIMatrix (length be + 1) (view_npoints sl) (PInt (nvars ele)))"
    "self ''_scal1_lhs'' = Some (MPIView (length be + 4) tl (PInt (nvars ele)) {''nopad''})"
proof -
  from assms have "NavierStokesMPIInterfaces_init lhs rhsrank elemap cfg (Map.empty, be) = (Inr (), (self, be'))"
    by (simp add: instantiate_Inr_iff)
  then obtain w1 tl vlen where
    b: "BaseMPIInterfaces_init lhs rhsrank elemap cfg (Map.empty, be) = (Inr (), w1)" and
    vlen: "fst w1 ''nvars'' = Some vlen" and
    w': "(self, be') = ((fst w1)(''_scal1_lhs'' \<mapsto> MPIView (length (snd w1)) tl vlen {''nopad''}),
            snd w1 @ [MPIView (length (snd w1)) tl vlen {''nopad''}])"
    unfolding NavierStokesMPIInterfaces_init_Inr_iff by blast
  from b have b': "BaseMPIInterfaces_init lhs rhsrank elemap cfg (Map.empty, be) = (Inr (), (fst w1, snd w1))"
    by simp
  from b' obtain ele sl ml ul where
      fv: "first_value elemap = Inr ele"
      "get_view_mats lhs ''get_scal_fpts0_for_inter'' elemap = Inr sl"
      "get_mag_pnorm_mat lhs elemap = Inr ml"
      "get_norm_pnorm_mat lhs elemap = Inr ul" and
      self0: "fst w1 = [''_be'' \<mapsto> PBackend, ''_cfg'' \<mapsto> PCfg cfg,
                ''ndims'' \<mapsto> PInt (ndims ele), ''nvars'' \<mapsto> PInt (nvars ele),
                ''_rhsrank'' \<mapsto> PInt rhsrank,
                ''_scal0_lhs'' \<mapsto> MPIView (length be) sl (PInt (nvars ele)) {''nopad''},
                ''_scal0_rhs'' \<mapsto> MPIMatrix (length be + 1) (view_npoints sl) (PInt (nvars ele)),
                ''_mag_pnorm_lhs'' \<mapsto> ConstMatrix (length be + 2) ml {''nopad''},
                ''_norm_pnorm_lhs'' \<mapsto> ConstMatrix (length be + 3) ul {''nopad''}]" and
      be0: "snd w1 = be @ [MPIView (length be) sl (PInt (nvars ele)) {''nopad''},
                 MPIMatrix (length be + 1) (view_npoints sl) (PInt (nvars ele)),
                 ConstMatrix (length be + 2) ml {''nopad''},
                 ConstMatrix (length be + 3) ul {''nopad''}]"
    by (rule BaseMPIInterfaces_init_InrE)
  from vlen have v: "vlen = PInt (nvars ele)"
    by (simp add: self0)
  from w' have self: "self = (fst w1)(''_scal1_lhs'' \<mapsto> MPIView (length (snd w1)) tl vlen {''nopad''})"
    by simp
  show thesis
    by (rule that [of ele sl tl]) (simp_all add: fv self self0 be0 v)
qed

lemma euler_internal_attrs:
  assumes "instantiate (BaseInternalInterfaces_init lhs rhs elemap cfg) be = (Inr self, be')"
  obtains ele sl sr ml mr ul where
    "first_value elemap = Inr ele"
    "self ''_cfg'' = Some (PCfg cfg)"
    "self ''_be'' = Some PBackend"
    "self ''ndims'' = Some (PInt (ndims ele))"
    "self ''nvars'' = Some (PInt (nvars ele))"
    "self ''_scal0_lhs'' = Some (View (length be) sl (PInt (nvars ele)) {''nopad''})"
    "self ''_scal0_rhs'' = Some (View (length be + 1) sr (PInt (nvars ele)) {''nopad''})"
    "self ''_mag_pnorm_lhs'' = Some (ConstMatrix (length be + 2) ml {''nopad''})"
    "self ''_mag_pnorm_rhs'' = Some (ConstMatrix (length be + 3) mr {''nopad''})"
    "self ''_norm_pnorm_lhs'' = Some (ConstMatrix (length be + 4) ul {''nopad''})"
proof -
  from assms have "BaseInternalInterfaces_init lhs rhs elemap cfg (Map.empty, be) = (Inr (), (self, be'))"
    by (simp add: instantiate_Inr_iff)
  then obtain ele sl sr ml mr ul where
      fv: "first_value elemap = Inr ele" and
      "get_view_mats lhs ''get_scal_fpts0_for_inter'' elemap = Inr sl"
      "get_view_mats rhs ''get_scal_fpts0_for_inter'' elemap = Inr sr"
      "get_mag_pnorm_mat lhs elemap = Inr ml"
      "get_mag_pnorm_mat rhs elemap = Inr mr"
      "get_norm_pnorm_mat lhs elemap = Inr ul" and
      self: "self = [''_be'' \<mapsto> PBackend, ''_cfg'' \<mapsto> PCfg cfg,
                ''ndims'' \<mapsto> PInt (ndims ele), ''nvars'' \<mapsto> PInt (nvars ele),
                ''_scal0_lhs'' \<mapsto> View (length be) sl (PInt (nvars ele)) {''nopad''},
                ''_scal0_rhs'' \<mapsto> View (length be + 1) sr (PInt (nvars ele)) {''nopad''},
                ''_mag_pnorm_lhs'' \<mapsto> ConstMatrix (length be + 2) ml {''nopad''},
                ''_mag_pnorm_rhs'' \<mapsto> ConstMatrix (length be + 3) mr {''nopad''},
                ''_norm_pnorm_lhs'' \<mapsto> ConstMatrix (length be + 4) ul {''nopad''}]" and
      "be' = be @ [View (length be) sl (PInt (nvars ele)) {''nopad''},
                 View (length be + 1) sr (PInt (nvars ele)) {''nopad''},
                 ConstMatrix (length be + 2) ml {''nopad''},
                 ConstMatrix (length be + 3) mr {''nopad''},
                 ConstMatrix (length be + 4) ul {''nopad''}]"
    by (rule BaseInternalInterfaces_init_InrE)
  show thesis
    by (rule that [of ele sl sr ml mr ul]) (simp_all add: fv self)
qed

lemma euler_mpi_attrs:
  assumes "instantiate (BaseMPIInterfaces_init lhs rhsrank elemap cfg) be = (Inr self, be')"
  obtains ele sl ml ul where
    "first_value elemap = Inr ele"
    "self ''_cfg'' = Some (PCfg cfg)"
    "self ''_be'' = Some PBackend"
    "self ''ndims'' = Some (PInt (ndims ele))"
    "self ''nvars'' = Some (PInt (nvars ele))"
    "self ''_scal0_lhs'' = Some (MPIView (length be) sl (PInt (nvars ele)) {''nopad''})"
    "self ''_scal0_rhs'' = Some (MPIMatrix (length be + 1) (view_npoints sl) (PInt (nvars ele)))"
    "self ''_mag_pnorm_lhs'' = Some (ConstMatrix (length be + 2) ml {''nopad''})"
    "self ''_norm_pnorm_lhs'' = Some (ConstMatrix (length be + 3) ul {''nopad''})"
proof -
  from assms have "BaseMPIInterfaces_init lhs rhsrank elemap cfg (Map.empty, be) = (Inr (), (self, be'))"
    by (simp add: instantiate_Inr_iff)
  then obtain ele sl ml ul where
      fv: "first_value elemap = Inr ele" and
      "get_view_mats lhs ''get_scal_fpts0_for_inter'' elemap = Inr sl"
      "get_mag_pnorm_mat lhs elemap = Inr ml"
      "get_norm_pnorm_mat lhs elemap = Inr ul" and
      self: "self = [''_be'' \<mapsto> PBackend, ''_cfg'' \<mapsto> PCfg cfg,
                ''ndims'' \<mapsto> PInt (ndims ele), ''nvars'' \<mapsto> PInt (nvars ele),
                ''_rhsrank'' \<mapsto> PInt rhsrank,
                ''_scal0_lhs'' \<mapsto> MPIView (length be) sl (PInt (nvars ele)) {''nopad''},
                ''_scal0_rhs'' \<mapsto> MPIMatrix (length be + 1) (view_npoints sl) (PInt (nvars ele)),
                ''_mag_pnorm_lhs'' \<mapsto> ConstMatrix (length be + 2) ml {''nopad''},
                ''_norm_pnorm_lhs'' \<mapsto> ConstMatrix (length be + 3) ul {''nopad''}]" and
      "be' = be @ [MPIView (length be) sl (PInt (nvars ele)) {''nopad''},
                 MPIMatrix (length be + 1) (view_npoints sl) (PInt (nvars ele)),
                 ConstMatrix (length be + 2) ml {''nopad''},
                 ConstMatrix (length be + 3) ul {''nopad''}]"
    by (rule BaseMPIInterfaces_init_InrE)
  show thesis
    by (rule that [of ele sl ml ul]) (simp_all add: fv self)
qed

lemma ex_internal_badcfg_ok: "\<not> isl (fst ex_internal_badcfg)"
  by (simp add: ex_internal_badcfg_def init_defs act_defs ex_defs2 array_defs)

section \<open>The claims\<close>

text \<open>
  C7 (as amended). View assembly raises AttributeError for the requested accessor exactly
  when some element type of the element map lacks it, whether a side refers to that type
  or not. When every element type of the map provides the accessor, every side's accessor
  returns three fragments, and the fragments of each of the three kinds are conformable
  (so the side list is not empty), assembly succeeds and returns the three joined arrays.
\<close>

theorem get_view_mats_unsupported:
  "(get_view_mats S mat elemap = Inl (AttributeError mat) \<longleftrightarrow>
      (\<exists>p \<in> set elemap. view_mat_getters (snd p) mat = None)) \<and>
   ((\<forall>p \<in> set elemap. view_mat_getters (snd p) mat \<noteq> None) \<and>
    (\<forall>s \<in> set S. view_getter_returns elemap mat s [A s, B s, C s]) \<and>
    conformable ta (map A S) \<and> conformable tb (map B S) \<and> conformable tc (map C S) \<longrightarrow>
    get_view_mats S mat elemap =
      Inr [joined ta (map A S), joined tb (map B S), joined tc (map C S)])"
proof
  show "get_view_mats S mat elemap = Inl (AttributeError mat) \<longleftrightarrow>
      (\<exists>p \<in> set elemap. view_mat_getters (snd p) mat = None)"
  proof
    assume "get_view_mats S mat elemap = Inl (AttributeError mat)"
    then show "\<exists>p \<in> set elemap. view_mat_getters (snd p) mat = None"
      using get_view_mats_AttributeError_iff [of S mat elemap] by blast
  next
    assume "\<exists>p \<in> set elemap. view_mat_getters (snd p) mat = None"
    then obtain e where e: "viewmatmap_of elemap mat = Inl e"
      using viewmatmap_of_Inl_iff [of elemap mat] by blast
    then show "get_view_mats S mat elemap = Inl (AttributeError mat)"
      using viewmatmap_of_Inl [OF e] by (simp add: get_view_mats_def)
  qed
next
  show "(\<forall>p \<in> set elemap. view_mat_getters (snd p) mat \<noteq> None) \<and>
    (\<forall>s \<in> set S. view_getter_returns elemap mat s [A s, B s, C s]) \<and>
    conformable ta (map A S) \<and> conformable tb (map B S) \<and> conformable tc (map C S) \<longrightarrow>
    get_view_mats S mat elemap =
      Inr [joined ta (map A S), joined tb (map B S), joined tc (map C S)]"
    using get_view_mats_Inr_iff [of S elemap mat A B C] by blast
qed

theorem get_view_mats_unsupported_witness:
  "list_all (\<lambda>p. view_mat_getters (snd p) ''get_scal_fpts0_for_inter'' \<noteq> None) ex_elemap \<and>
   list_all (\<lambda>s. view_getter_returns ex_elemap ''get_scal_fpts0_for_inter'' s
                    [ex_frags s ! 0, ex_frags s ! 1, ex_frags s ! 2]) ex_lhs \<and>
   conformable [] (map (\<lambda>s. ex_frags s ! 0) ex_lhs) \<and>
   conformable [2] (map (\<lambda>s. ex_frags s ! 1) ex_lhs) \<and>
   conformable [2] (map (\<lambda>s. ex_frags s ! 2) ex_lhs) \<and>
   get_view_mats ex_lhs ''get_scal_fpts0_for_inter'' ex_elemap =
     Inr [joined [] (map (\<lambda>s. ex_frags s ! 0) ex_lhs),
          joined [2] (map (\<lambda>s. ex_frags s ! 1) ex_lhs),
          joined [2] (map (\<lambda>s. ex_frags s ! 2) ex_lhs)] \<and>
   get_view_mats ex_lhs ''get_scal_fpts0_for_inter'' ex_elemap \<noteq>
     Inl (AttributeError ''get_scal_fpts0_for_inter'')"
proof -
  have 1: "\<forall>p \<in> set ex_elemap. view_mat_getters (snd p) ''get_scal_fpts0_for_inter'' \<noteq> None"
    by (simp add: ex_defs)
  have 2: "\<forall>s \<in> set ex_lhs. view_getter_returns ex_elemap ''get_scal_fpts0_for_inter'' s
                    [ex_frags s ! 0, ex_frags s ! 1, ex_frags s ! 2]"
    by (simp add: ex_defs view_getter_returns_def)
  have 3: "conformable [] (map (\<lambda>s. ex_frags s ! 0) ex_lhs)"
    "conformable [2] (map (\<lambda>s. ex_frags s ! 1) ex_lhs)"
    "conformable [2] (map (\<lambda>s. ex_frags s ! 2) ex_lhs)"
    by (simp_all add: ex_defs conformable_def)
  show ?thesis
    using 1 2 3
      get_view_mats_unsupported [of ex_lhs "''get_scal_fpts0_for_inter''" ex_elemap
        "\<lambda>s. ex_frags s ! 0" "\<lambda>s. ex_frags s ! 1" "\<lambda>s. ex_frags s ! 2" "[]" "[2]" "[2]"]
    by (simp add: list_all_iff)
qed

text \<open>
  C7 as stated fails: the only side refers to \<^verbatim>\<open>quad\<close>, which provides the accessor,
  and assembly still raises AttributeError, because the unreferenced \<^verbatim>\<open>hex\<close> lacks it.
\<close>

theorem get_view_mats_unreferenced_counterexample:
  "view_getter_returns [(''quad'', ex_ele 0), (''hex'', ex_bare)] ''get_scal_fpts0_for_inter''
     (''quad'', 0, 0, 0) (ex_getter 0 0 0 0) \<and>
   get_view_mats [(''quad'', 0, 0, 0)] ''get_scal_fpts0_for_inter''
     [(''quad'', ex_ele 0), (''hex'', ex_bare)] =
     Inl (AttributeError ''get_scal_fpts0_for_inter'')"
  by (simp add: view_getter_returns_def get_view_mats_def ex_defs)





text \<open>
  C3 (as amended). The constructor compares nothing between the two side lists. When
  every element type of the map provides the primary view accessor, the accessors of
  every side return what \<open>A\<close>, \<open>B\<close>, \<open>C\<close>, \<open>M\<close> and \<open>U\<close> describe, and the fragments of each
  array are conformable, construction succeeds for side lists of any two lengths; the
  lhs views then expose the summed point counts of \<open>lhs\<close> and the rhs views those of
  \<open>rhs\<close>. Whenever an initialiser raises, the caller gets the exception and no instance.
\<close>

theorem internal_construction_compares_no_lengths:
  assumes getters: "\<forall>p \<in> set elemap. view_mat_getters (snd p) ''get_scal_fpts0_for_inter'' \<noteq> None"
    and views: "\<forall>s \<in> set lhs \<union> set rhs.
       view_getter_returns elemap ''get_scal_fpts0_for_inter'' s [A s, B s, C s]"
    and mags: "\<forall>s \<in> set lhs \<union> set rhs.
       pnorm_getter_returns get_mag_pnorms_for_inter elemap s (M s)"
    and norms: "\<forall>s \<in> set lhs. pnorm_getter_returns get_norm_pnorms_for_inter elemap s (U s)"
    and lconf: "conformable ta (map A lhs)" "conformable tb (map B lhs)"
       "conformable tc (map C lhs)" "conformable tm (map M lhs)" "conformable tu (map U lhs)"
    and rconf: "conformable ta' (map A rhs)" "conformable tb' (map B rhs)"
       "conformable tc' (map C rhs)" "conformable tm' (map M rhs)"
  shows "(\<exists>self be'.
            instantiate (BaseInternalInterfaces_init lhs rhs elemap cfg) be = (Inr self, be') \<and>
            map npoints (arrays_of self ''_scal0_lhs'') =
              [sum_list (map (axis0 \<circ> A) lhs), sum_list (map (axis0 \<circ> B) lhs),
               sum_list (map (axis0 \<circ> C) lhs)] \<and>
            map npoints (arrays_of self ''_scal0_rhs'') =
              [sum_list (map (axis0 \<circ> A) rhs), sum_list (map (axis0 \<circ> B) rhs),
               sum_list (map (axis0 \<circ> C) rhs)]) \<and>
         (\<forall>init e w. init (Map.empty, be) = (Inl e, w) \<longrightarrow>
            instantiate init be = (Inl e :: error + ('f, 'a) inst, snd w))"
proof
  have vl: "\<forall>s \<in> set lhs. view_getter_returns elemap ''get_scal_fpts0_for_inter'' s [A s, B s, C s]"
    and vr: "\<forall>s \<in> set rhs. view_getter_returns elemap ''get_scal_fpts0_for_inter'' s [A s, B s, C s]"
    and gl: "\<forall>s \<in> set lhs. pnorm_getter_returns get_mag_pnorms_for_inter elemap s (M s)"
    and gr: "\<forall>s \<in> set rhs. pnorm_getter_returns get_mag_pnorms_for_inter elemap s (M s)"
    using views mags by blast+
  from lconf(1) obtain s where "s \<in> set lhs"
    by (cases lhs) (auto simp: conformable_def)
  with vl have "view_getter_returns elemap ''get_scal_fpts0_for_inter'' s [A s, B s, C s]"
    by blast
  then obtain ele where ele: "first_value elemap = Inr ele"
    by (rule first_value_of_side)
  let ?sl = "[joined ta (map A lhs), joined tb (map B lhs), joined tc (map C lhs)]"
  let ?sr = "[joined ta' (map A rhs), joined tb' (map B rhs), joined tc' (map C rhs)]"
  have sl: "get_view_mats lhs ''get_scal_fpts0_for_inter'' elemap = Inr ?sl"
    using get_view_mats_Inr_iff [OF vl, of ?sl] getters lconf by blast
  have sr: "get_view_mats rhs ''get_scal_fpts0_for_inter'' elemap = Inr ?sr"
    using get_view_mats_Inr_iff [OF vr, of ?sr] getters rconf by blast
  have ml: "get_mag_pnorm_mat lhs elemap = Inr (joined tm (map M lhs))"
    using get_mag_pnorm_mat_Inr_iff [OF gl] lconf by blast
  have mr: "get_mag_pnorm_mat rhs elemap = Inr (joined tm' (map M rhs))"
    using get_mag_pnorm_mat_Inr_iff [OF gr] rconf by blast
  have ul: "get_norm_pnorm_mat lhs elemap = Inr (joined tu (map U lhs))"
    using get_norm_pnorm_mat_Inr_iff [OF norms] lconf by blast
  let ?self = "[''_be'' \<mapsto> PBackend, ''_cfg'' \<mapsto> PCfg cfg,
                ''ndims'' \<mapsto> PInt (ndims ele), ''nvars'' \<mapsto> PInt (nvars ele),
                ''_scal0_lhs'' \<mapsto> View (length be) ?sl (PInt (nvars ele)) {''nopad''},
                ''_scal0_rhs'' \<mapsto> View (length be + 1) ?sr (PInt (nvars ele)) {''nopad''},
                ''_mag_pnorm_lhs'' \<mapsto> ConstMatrix (length be + 2) (joined tm (map M lhs)) {''nopad''},
                ''_mag_pnorm_rhs'' \<mapsto> ConstMatrix (length be + 3) (joined tm' (map M rhs)) {''nopad''},
                ''_norm_pnorm_lhs'' \<mapsto> ConstMatrix (length be + 4) (joined tu (map U lhs)) {''nopad''}]"
  have "\<exists>be'. instantiate (BaseInternalInterfaces_init lhs rhs elemap cfg) be = (Inr ?self, be')"
    unfolding instantiate_Inr_iff BaseInternalInterfaces_init_Inr_iff
    by (simp add: ele sl sr ml mr ul)
  then obtain be' where
    inst: "instantiate (BaseInternalInterfaces_init lhs rhs elemap cfg) be = (Inr ?self, be')" ..
  have pts: "map npoints (arrays_of ?self ''_scal0_lhs'') =
              [sum_list (map (axis0 \<circ> A) lhs), sum_list (map (axis0 \<circ> B) lhs),
               sum_list (map (axis0 \<circ> C) lhs)]"
    "map npoints (arrays_of ?self ''_scal0_rhs'') =
              [sum_list (map (axis0 \<circ> A) rhs), sum_list (map (axis0 \<circ> B) rhs),
               sum_list (map (axis0 \<circ> C) rhs)]"
    by (simp_all add: arrays_of_def npoints_joined)
  show "\<exists>self be'.
            instantiate (BaseInternalInterfaces_init lhs rhs elemap cfg) be = (Inr self, be') \<and>
            map npoints (arrays_of self ''_scal0_lhs'') =
              [sum_list (map (axis0 \<circ> A) lhs), sum_list (map (axis0 \<circ> B) lhs),
               sum_list (map (axis0 \<circ> C) lhs)] \<and>
            map npoints (arrays_of self ''_scal0_rhs'') =
              [sum_list (map (axis0 \<circ> A) rhs), sum_list (map (axis0 \<circ> B) rhs),
               sum_list (map (axis0 \<circ> C) rhs)]"
    by (rule exI [of _ ?self], rule exI [of _ be'], intro conjI) (fact inst pts)+
next
  show "\<forall>init e w. init (Map.empty, be) = (Inl e, w) \<longrightarrow>
            instantiate init be = (Inl e :: error + ('f, 'a) inst, snd w)"
    by (simp add: instantiate_def)
qed

theorem internal_construction_compares_no_lengths_witness:
  "length ex_lhs = 3 \<and> length ex_rhs1 = 1 \<and>
   (\<exists>self be'.
      instantiate (BaseInternalInterfaces_init ex_lhs ex_rhs1 ex_elemap ex_cfg) [] = (Inr self, be') \<and>
      map npoints (arrays_of self ''_scal0_lhs'') = [12, 12, 12] \<and>
      map npoints (arrays_of self ''_scal0_rhs'') = [4, 4, 4])"
proof -
  have g: "\<forall>p \<in> set ex_elemap. view_mat_getters (snd p) ''get_scal_fpts0_for_inter'' \<noteq> None"
    by (simp add: ex_defs2)
  have v: "\<forall>s \<in> set ex_lhs \<union> set ex_rhs1.
     view_getter_returns ex_elemap ''get_scal_fpts0_for_inter'' s
       [ex_frags s ! 0, ex_frags s ! 1, ex_frags s ! 2]"
    using ex_views by blast
  have m: "\<forall>s \<in> set ex_lhs \<union> set ex_rhs1.
     pnorm_getter_returns get_mag_pnorms_for_inter ex_elemap s (ex_mag s)"
    using ex_mags by blast
  have n: "\<forall>s \<in> set ex_lhs.
     pnorm_getter_returns get_norm_pnorms_for_inter ex_elemap s (ex_norm s)"
    using ex_norms by blast
  have l: "conformable [] (map (\<lambda>s. ex_frags s ! 0) ex_lhs)"
    "conformable [2] (map (\<lambda>s. ex_frags s ! 1) ex_lhs)"
    "conformable [2] (map (\<lambda>s. ex_frags s ! 2) ex_lhs)"
    "conformable [] (map ex_mag ex_lhs)"
    "conformable [2] (map ex_norm ex_lhs)"
    by (simp_all add: ex_defs2 conformable_def)
  have r: "conformable [] (map (\<lambda>s. ex_frags s ! 0) ex_rhs1)"
    "conformable [2] (map (\<lambda>s. ex_frags s ! 1) ex_rhs1)"
    "conformable [2] (map (\<lambda>s. ex_frags s ! 2) ex_rhs1)"
    "conformable [] (map ex_mag ex_rhs1)"
    by (simp_all add: ex_defs2 conformable_def)
  have "length ex_lhs = 3" "length ex_rhs1 = 1"
    by (simp_all add: ex_defs2)
  then show ?thesis
    using internal_construction_compares_no_lengths [OF g v m n l r, of ex_cfg "[]"]
    by (simp add: ex_defs2 axis0_def)
qed

text \<open>
  C3 as stated fails: with three left sides and one right side construction succeeds,
  with twelve points on the left and four on the right.
\<close>

theorem internal_unequal_lengths_counterexample:
  "length ex_lhs \<noteq> length ex_rhs1 \<and> \<not> isl (fst ex_internal_uneven) \<and>
   map npoints (arrays_of (the_instance ex_internal_uneven) ''_scal0_lhs'') = [12, 12, 12] \<and>
   map npoints (arrays_of (the_instance ex_internal_uneven) ''_scal0_rhs'') = [4, 4, 4]"
  by (simp add: ex_internal_uneven_def the_instance_def arrays_of_def init_defs act_defs ex_defs2
      array_defs)

text \<open>
  C4. Constructing an internal interface set (of either equation system) allocates
  exactly three constant arrays on the backend, and exactly three attributes hold a
  constant array: the normal magnitudes of \<open>lhs\<close>, the normal magnitudes of \<open>rhs\<close> and the
  unit normals of \<open>lhs\<close>. No unit-normal array of \<open>rhs\<close> is allocated or stored.
\<close>

theorem internal_stores_no_rhs_unit_normal:
  assumes inst:
      "instantiate (BaseInternalInterfaces_init lhs rhs elemap cfg) be = (Inr self, be') \<or>
       instantiate (NavierStokesInternalInterfaces_init lhs rhs elemap cfg) be = (Inr self, be')"
  shows "\<exists>ml mr ul.
           get_mag_pnorm_mat lhs elemap = Inr ml \<and>
           get_mag_pnorm_mat rhs elemap = Inr mr \<and>
           get_norm_pnorm_mat lhs elemap = Inr ul \<and>
           self ''_mag_pnorm_lhs'' = Some (ConstMatrix (length be + 2) ml {''nopad''}) \<and>
           self ''_mag_pnorm_rhs'' = Some (ConstMatrix (length be + 3) mr {''nopad''}) \<and>
           self ''_norm_pnorm_lhs'' = Some (ConstMatrix (length be + 4) ul {''nopad''}) \<and>
           filter is_const_matrix (drop (length be) be') =
             [ConstMatrix (length be + 2) ml {''nopad''},
              ConstMatrix (length be + 3) mr {''nopad''},
              ConstMatrix (length be + 4) ul {''nopad''}] \<and>
           {n. \<exists>v. self n = Some v \<and> is_const_matrix v} =
             {''_mag_pnorm_lhs'', ''_mag_pnorm_rhs'', ''_norm_pnorm_lhs''}"
  using inst
proof (cases rule: internal_instantiate_cases)
  case (built ele sl sr ml mr ul extra)
  have "filter is_const_matrix (drop (length be) be') =
             [ConstMatrix (length be + 2) ml {''nopad''},
              ConstMatrix (length be + 3) mr {''nopad''},
              ConstMatrix (length be + 4) ul {''nopad''}]"
    by (simp add: built(12) built(13) is_const_matrix_def)
  with built(4-6) built(9-11) built(14) show ?thesis
    by (intro exI [of _ ml] exI [of _ mr] exI [of _ ul] conjI)
qed

theorem internal_stores_no_rhs_unit_normal_witness:
  "filter is_const_matrix (snd ex_internal) =
     [ConstMatrix 2 (NDArray [1, 12] [2, 2, 2, 2, 1, 1, 1, 1, 3, 3, 3, 3]) {''nopad''},
      ConstMatrix 3 (NDArray [1, 12] [4, 4, 4, 4, 1, 1, 1, 1, 3, 3, 3, 3]) {''nopad''},
      ConstMatrix 4
        (NDArray [1, 12, 2] [1, 0, 1, 0, 1, 0, 1, 0, 1, 0, 1, 0, 1, 0, 1, 0,
                             1, 0, 1, 0, 1, 0, 1, 0]) {''nopad''}] \<and>
   {n. \<exists>v. the_instance ex_internal n = Some v \<and> is_const_matrix v} =
     {''_mag_pnorm_lhs'', ''_mag_pnorm_rhs'', ''_norm_pnorm_lhs''}"
proof -
  have inst: "instantiate (BaseInternalInterfaces_init ex_lhs ex_rhs ex_elemap ex_cfg) [] =
      (Inr (the_instance ex_internal), snd ex_internal)"
    using built_instance [OF ex_internal_ok] by (simp add: ex_internal_def)
  have ml: "get_mag_pnorm_mat ex_lhs ex_elemap =
      Inr (NDArray [1, 12] [2, 2, 2, 2, 1, 1, 1, 1, 3, 3, 3, 3])"
    and mr: "get_mag_pnorm_mat ex_rhs ex_elemap =
      Inr (NDArray [1, 12] [4, 4, 4, 4, 1, 1, 1, 1, 3, 3, 3, 3])"
    and ul: "get_norm_pnorm_mat ex_lhs ex_elemap =
      Inr (NDArray [1, 12, 2] [1, 0, 1, 0, 1, 0, 1, 0, 1, 0, 1, 0, 1, 0, 1, 0,
                             1, 0, 1, 0, 1, 0, 1, 0])"
    by (simp_all add: get_mag_pnorm_mat_def get_norm_pnorm_mat_def ex_defs2 array_defs)
  show ?thesis
    using internal_stores_no_rhs_unit_normal [OF disjI1 [OF inst]]
    by (simp add: ml mr ul)
qed

text \<open>
  C6. A distributed interface set holds as its rhs operand a buffer that the backend
  allocated during that set's construction, shaped from the set's own lhs view (its
  number of points and its vector length). Of two sets built one after the other on a
  backend, the buffers are different objects.
\<close>

theorem receive_buffer_own_and_shaped:
  assumes first:
      "instantiate (BaseMPIInterfaces_init lhs1 rank1 elemap1 cfg1) be1 = (Inr self1, be1') \<or>
       instantiate (NavierStokesMPIInterfaces_init lhs1 rank1 elemap1 cfg1) be1 = (Inr self1, be1')"
    and second:
      "instantiate (BaseMPIInterfaces_init lhs2 rank2 elemap2 cfg2) be2 = (Inr self2, be2') \<or>
       instantiate (NavierStokesMPIInterfaces_init lhs2 rank2 elemap2 cfg2) be2 = (Inr self2, be2')"
    and later: "length be1' \<le> length be2"
  shows "\<exists>sl1 vlen1 sl2 vlen2.
           self1 ''_scal0_lhs'' = Some (MPIView (length be1) sl1 vlen1 {''nopad''}) \<and>
           self1 ''_scal0_rhs'' = Some (MPIMatrix (length be1 + 1) (view_npoints sl1) vlen1) \<and>
           be1' ! (length be1 + 1) = MPIMatrix (length be1 + 1) (view_npoints sl1) vlen1 \<and>
           self2 ''_scal0_lhs'' = Some (MPIView (length be2) sl2 vlen2 {''nopad''}) \<and>
           self2 ''_scal0_rhs'' = Some (MPIMatrix (length be2 + 1) (view_npoints sl2) vlen2) \<and>
           be2' ! (length be2 + 1) = MPIMatrix (length be2 + 1) (view_npoints sl2) vlen2 \<and>
           length be1 + 1 < length be2 + 1 \<and>
           self1 ''_scal0_rhs'' \<noteq> self2 ''_scal0_rhs''"
  using first
proof (cases rule: mpi_instantiate_cases)
  case one: (built ele1 sl1 extra1)
  from second show ?thesis
  proof (cases rule: mpi_instantiate_cases)
    case two: (built ele2 sl2 extra2)
    have len: "length be1 + 1 < length be2 + 1"
      using later by (simp add: one(10))
    have b1: "be1' ! (length be1 + 1) =
        MPIMatrix (length be1 + 1) (view_npoints sl1) (PInt (nvars ele1))"
      by (simp add: one(10) nth_append)
    have b2: "be2' ! (length be2 + 1) =
        MPIMatrix (length be2 + 1) (view_npoints sl2) (PInt (nvars ele2))"
      by (simp add: two(10) nth_append)
    have ne: "self1 ''_scal0_rhs'' \<noteq> self2 ''_scal0_rhs''"
      using len by (simp add: one(9) two(9))
    show ?thesis
      using one(8,9) two(8,9) len b1 b2 ne
      by (intro exI [of _ sl1] exI [of _ "PInt (nvars ele1)"] exI [of _ sl2]
          exI [of _ "PInt (nvars ele2)"] conjI)
  qed
qed

theorem receive_buffer_own_and_shaped_witness:
  "the_instance ex_mpi ''_scal0_rhs'' = Some (MPIMatrix 1 12 (PInt 4)) \<and>
   view_npoints (arrays_of (the_instance ex_mpi) ''_scal0_lhs'') = 12 \<and>
   the_instance ex_mpi_later ''_scal0_rhs'' = Some (MPIMatrix 5 4 (PInt 4)) \<and>
   view_npoints (arrays_of (the_instance ex_mpi_later) ''_scal0_lhs'') = 4 \<and>
   the_instance ex_mpi ''_scal0_rhs'' \<noteq> the_instance ex_mpi_later ''_scal0_rhs''"
proof -
  have i1: "instantiate (BaseMPIInterfaces_init ex_lhs 2 ex_elemap ex_cfg) [] =
      (Inr (the_instance ex_mpi), snd ex_mpi)"
    using built_instance [OF ex_mpi_ok] by (simp add: ex_mpi_def)
  have i2: "instantiate (BaseMPIInterfaces_init ex_rhs1 5 ex_elemap ex_cfg) (snd ex_mpi) =
      (Inr (the_instance ex_mpi_later), snd ex_mpi_later)"
    using built_instance [OF ex_mpi_later_ok] by (simp add: ex_mpi_later_def)
  have l1: "the_instance ex_mpi ''_scal0_lhs'' = Some (MPIView 0
          [NDArray [1, 12] [0, 0, 0, 0, 1, 1, 1, 1, 0, 0, 0, 0],
           NDArray [1, 12, 2] [4, 0, 5, 0, 6, 0, 7, 0, 0, 0, 1, 0, 2, 0, 3, 0,
                               8, 1, 9, 1, 10, 1, 11, 1],
           NDArray [1, 12, 2] [1, 8, 1, 8, 1, 8, 1, 8, 1, 8, 1, 8, 1, 8, 1, 8,
                               1, 8, 1, 8, 1, 8, 1, 8]] (PInt 4) {''nopad''})"
    by (simp add: ex_mpi_def the_instance_def init_defs act_defs ex_defs2 array_defs)
  have l2: "the_instance ex_mpi_later ''_scal0_lhs'' = Some (MPIView 4
          [NDArray [1, 4] [1, 1, 1, 1],
           NDArray [1, 4, 2] [8, 0, 9, 0, 10, 0, 11, 0],
           NDArray [1, 4, 2] [1, 8, 1, 8, 1, 8, 1, 8]] (PInt 4) {''nopad''})"
    by (simp add: ex_mpi_later_def ex_mpi_def the_instance_def init_defs act_defs ex_defs2
        array_defs)
  show ?thesis
    using receive_buffer_own_and_shaped [OF disjI1 [OF i1] disjI1 [OF i2]] ex_mpi_length
    by (auto simp: l1 l2 arrays_of_def view_npoints_def npoints_def)
qed

text \<open>
  C2, evaluated on the code. On every instance that \<^verbatim>\<open>NavierStokesInternalInterfaces.__init__\<close>
  has initialised, \<^verbatim>\<open>get_conu_fpts_kern\<close> raises AttributeError for \<^verbatim>\<open>_beta\<close>, an
  attribute no constructor assigns. On every instance that
  \<^verbatim>\<open>NavierStokesMPIInterfaces.__init__\<close> has initialised, the descriptor has five operands
  (two dimensions, two views and the receive buffer) and no constant.
\<close>

theorem conu_kernel_gets_no_penalty_constant:
  "(instantiate (NavierStokesInternalInterfaces_init lhs rhs elemap cfg) be = (Inr self, be') \<longrightarrow>
      self ''_beta'' = None \<and>
      NavierStokesInternalInterfaces_get_conu_fpts_kern (self, be'') =
        (Inl (AttributeError ''_beta''), (self, be''))) \<and>
   (instantiate (NavierStokesMPIInterfaces_init lhs rhsrank elemap cfg) be = (Inr self, be') \<longrightarrow>
      (\<exists>nd nv i sl j n k tl.
         NavierStokesMPIInterfaces_get_conu_fpts_kern (self, be'') =
           (Inr (Kernel ''conu_mpi''
              [PInt nd, PInt nv, MPIView i sl (PInt nv) {''nopad''}, MPIMatrix j n (PInt nv),
               MPIView k tl (PInt nv) {''nopad''}]),
            (self, be''))))"
proof (intro conjI impI)
  assume "instantiate (NavierStokesInternalInterfaces_init lhs rhs elemap cfg) be = (Inr self, be')"
  then obtain ele sl sr tl tr where
    "first_value elemap = Inr ele" and
    look: "self ''_be'' = Some PBackend" "self ''ndims'' = Some (PInt (ndims ele))"
    "self ''nvars'' = Some (PInt (nvars ele))"
    "self ''_scal0_lhs'' = Some (View (length be) sl (PInt (nvars ele)) {''nopad''})"
    "self ''_scal0_rhs'' = Some (View (length be + 1) sr (PInt (nvars ele)) {''nopad''})"
    "self ''_scal1_lhs'' = Some (View (length be + 5) tl (PInt (nvars ele)) {''nopad''})"
    "self ''_scal1_rhs'' = Some (View (length be + 6) tr (PInt (nvars ele)) {''nopad''})"
    "self ''_beta'' = None"
    by (rule ns_internal_attrs)
  show "self ''_beta'' = None" by (fact look)
  show "NavierStokesInternalInterfaces_get_conu_fpts_kern (self, be'') =
        (Inl (AttributeError ''_beta''), (self, be''))"
    by (simp add: getter_defs act_defs look)
next
  assume "instantiate (NavierStokesMPIInterfaces_init lhs rhsrank elemap cfg) be = (Inr self, be')"
  then obtain ele sl tl where
    "first_value elemap = Inr ele" and
    look: "self ''_be'' = Some PBackend" "self ''ndims'' = Some (PInt (ndims ele))"
    "self ''nvars'' = Some (PInt (nvars ele))"
    "self ''_scal0_lhs'' = Some (MPIView (length be) sl (PInt (nvars ele)) {''nopad''})"
    "self ''_scal0_rhs'' = Some (MPIMatrix (length be + 1) (view_npoints sl) (PInt (nvars ele)))"
    "self ''_scal1_lhs'' = Some (MPIView (length be + 4) tl (PInt (nvars ele)) {''nopad''})"
    by (rule ns_mpi_attrs)
  have "NavierStokesMPIInterfaces_get_conu_fpts_kern (self, be'') =
           (Inr (Kernel ''conu_mpi''
              [PInt (ndims ele), PInt (nvars ele),
               MPIView (length be) sl (PInt (nvars ele)) {''nopad''},
               MPIMatrix (length be + 1) (view_npoints sl) (PInt (nvars ele)),
               MPIView (length be + 4) tl (PInt (nvars ele)) {''nopad''}]),
            (self, be''))"
    by (simp add: getter_defs act_defs look)
  then show "\<exists>nd nv i sl j n k tl.
         NavierStokesMPIInterfaces_get_conu_fpts_kern (self, be'') =
           (Inr (Kernel ''conu_mpi''
              [PInt nd, PInt nv, MPIView i sl (PInt nv) {''nopad''}, MPIMatrix j n (PInt nv),
               MPIView k tl (PInt nv) {''nopad''}]),
            (self, be''))"
    by blast
qed

theorem conu_kernel_gets_no_penalty_constant_witness:
  "fst (NavierStokesInternalInterfaces_get_conu_fpts_kern
          (the_instance ex_ns_internal, snd ex_ns_internal)) = Inl (AttributeError ''_beta'') \<and>
   fst (NavierStokesMPIInterfaces_get_conu_fpts_kern (the_instance ex_ns_mpi, snd ex_ns_mpi)) =
     Inr (Kernel ''conu_mpi''
       [PInt 2, PInt 4,
        MPIView 0
          [NDArray [1, 12] [0, 0, 0, 0, 1, 1, 1, 1, 0, 0, 0, 0],
           NDArray [1, 12, 2] [4, 0, 5, 0, 6, 0, 7, 0, 0, 0, 1, 0, 2, 0, 3, 0,
                               8, 1, 9, 1, 10, 1, 11, 1],
           NDArray [1, 12, 2] [1, 8, 1, 8, 1, 8, 1, 8, 1, 8, 1, 8, 1, 8, 1, 8,
                               1, 8, 1, 8, 1, 8, 1, 8]] (PInt 4) {''nopad''},
        MPIMatrix 1 12 (PInt 4),
        MPIView 4
          [NDArray [1, 12] [10, 10, 10, 10, 11, 11, 11, 11, 10, 10, 10, 10],
           NDArray [1, 12, 2] [4, 0, 5, 0, 6, 0, 7, 0, 0, 0, 1, 0, 2, 0, 3, 0,
                               8, 1, 9, 1, 10, 1, 11, 1],
           NDArray [1, 12, 2] [1, 8, 1, 8, 1, 8, 1, 8, 1, 8, 1, 8, 1, 8, 1, 8,
                               1, 8, 1, 8, 1, 8, 1, 8]] (PInt 4) {''nopad''}])"
proof -
  have i1: "instantiate (NavierStokesInternalInterfaces_init ex_lhs ex_rhs ex_elemap ex_cfg) [] =
      (Inr (the_instance ex_ns_internal), snd ex_ns_internal)"
    using built_instance [OF ex_ns_internal_ok] by (simp add: ex_ns_internal_def)
  have i2: "instantiate (NavierStokesMPIInterfaces_init ex_lhs 2 ex_elemap ex_cfg) [] =
      (Inr (the_instance ex_ns_mpi), snd ex_ns_mpi)"
    using built_instance [OF ex_ns_mpi_ok] by (simp add: ex_ns_mpi_def)
  have look: "the_instance ex_ns_mpi ''_be'' = Some PBackend"
    "the_instance ex_ns_mpi ''ndims'' = Some (PInt 2)"
    "the_instance ex_ns_mpi ''nvars'' = Some (PInt 4)"
    "the_instance ex_ns_mpi ''_scal0_lhs'' = Some (MPIView 0
          [NDArray [1, 12] [0, 0, 0, 0, 1, 1, 1, 1, 0, 0, 0, 0],
           NDArray [1, 12, 2] [4, 0, 5, 0, 6, 0, 7, 0, 0, 0, 1, 0, 2, 0, 3, 0,
                               8, 1, 9, 1, 10, 1, 11, 1],
           NDArray [1, 12, 2] [1, 8, 1, 8, 1, 8, 1, 8, 1, 8, 1, 8, 1, 8, 1, 8,
                               1, 8, 1, 8, 1, 8, 1, 8]] (PInt 4) {''nopad''})"
    "the_instance ex_ns_mpi ''_scal0_rhs'' = Some (MPIMatrix 1 12 (PInt 4))"
    "the_instance ex_ns_mpi ''_scal1_lhs'' = Some (MPIView 4
          [NDArray [1, 12] [10, 10, 10, 10, 11, 11, 11, 11, 10, 10, 10, 10],
           NDArray [1, 12, 2] [4, 0, 5, 0, 6, 0, 7, 0, 0, 0, 1, 0, 2, 0, 3, 0,
                               8, 1, 9, 1, 10, 1, 11, 1],
           NDArray [1, 12, 2] [1, 8, 1, 8, 1, 8, 1, 8, 1, 8, 1, 8, 1, 8, 1, 8,
                               1, 8, 1, 8, 1, 8, 1, 8]] (PInt 4) {''nopad''})"
    by (simp_all add: ex_ns_mpi_def the_instance_def init_defs act_defs ex_defs2 array_defs)
  have mpi: "fst (NavierStokesMPIInterfaces_get_conu_fpts_kern (the_instance ex_ns_mpi, snd ex_ns_mpi)) =
     Inr (Kernel ''conu_mpi''
       [PInt 2, PInt 4,
        MPIView 0
          [NDArray [1, 12] [0, 0, 0, 0, 1, 1, 1, 1, 0, 0, 0, 0],
           NDArray [1, 12, 2] [4, 0, 5, 0, 6, 0, 7, 0, 0, 0, 1, 0, 2, 0, 3, 0,
                               8, 1, 9, 1, 10, 1, 11, 1],
           NDArray [1, 12, 2] [1, 8, 1, 8, 1, 8, 1, 8, 1, 8, 1, 8, 1, 8, 1, 8,
                               1, 8, 1, 8, 1, 8, 1, 8]] (PInt 4) {''nopad''},
        MPIMatrix 1 12 (PInt 4),
        MPIView 4
          [NDArray [1, 12] [10, 10, 10, 10, 11, 11, 11, 11, 10, 10, 10, 10],
           NDArray [1, 12, 2] [4, 0, 5, 0, 6, 0, 7, 0, 0, 0, 1, 0, 2, 0, 3, 0,
                               8, 1, 9, 1, 10, 1, 11, 1],
           NDArray [1, 12, 2] [1, 8, 1, 8, 1, 8, 1, 8, 1, 8, 1, 8, 1, 8, 1, 8,
                               1, 8, 1, 8, 1, 8, 1, 8]] (PInt 4) {''nopad''}])"
    by (simp add: getter_defs act_defs look)
  show ?thesis
    using conu_kernel_gets_no_penalty_constant
      [of ex_lhs ex_rhs ex_elemap ex_cfg "[]" "the_instance ex_ns_internal" "snd ex_ns_internal"
        "snd ex_ns_internal" 2] i1 mpi
    by simp
qed

text \<open>
  C9. With an empty element map each of the four constructors raises StopIteration and
  leaves the backend as it was: nothing has been allocated. A construction that
  succeeded had a non-empty element map, and took \<^verbatim>\<open>ndims\<close> and \<^verbatim>\<open>nvars\<close> from its
  first entry.
\<close>

theorem construction_needs_an_element:
  "instantiate (BaseInternalInterfaces_init lhs rhs [] cfg) be = (Inl StopIteration, be) \<and>
   instantiate (BaseMPIInterfaces_init lhs rhsrank [] cfg) be = (Inl StopIteration, be) \<and>
   instantiate (NavierStokesInternalInterfaces_init lhs rhs [] cfg) be = (Inl StopIteration, be) \<and>
   instantiate (NavierStokesMPIInterfaces_init lhs rhsrank [] cfg) be = (Inl StopIteration, be) \<and>
   (instantiate (BaseInternalInterfaces_init lhs rhs elemap cfg) be = (Inr self, be') \<or>
    instantiate (NavierStokesInternalInterfaces_init lhs rhs elemap cfg) be = (Inr self, be') \<or>
    instantiate (BaseMPIInterfaces_init lhs rhsrank elemap cfg) be = (Inr self, be') \<or>
    instantiate (NavierStokesMPIInterfaces_init lhs rhsrank elemap cfg) be = (Inr self, be') \<longrightarrow>
    (\<exists>type ele rest. elemap = (type, ele) # rest \<and>
       self ''ndims'' = Some (PInt (ndims ele)) \<and> self ''nvars'' = Some (PInt (nvars ele))))"
proof (intro conjI impI)
  show "instantiate (BaseInternalInterfaces_init lhs rhs [] cfg) be = (Inl StopIteration, be)"
    by (simp add: init_defs act_defs)
  show "instantiate (BaseMPIInterfaces_init lhs rhsrank [] cfg) be = (Inl StopIteration, be)"
    by (simp add: init_defs act_defs)
  show "instantiate (NavierStokesInternalInterfaces_init lhs rhs [] cfg) be = (Inl StopIteration, be)"
    by (simp add: init_defs act_defs)
  show "instantiate (NavierStokesMPIInterfaces_init lhs rhsrank [] cfg) be = (Inl StopIteration, be)"
    by (simp add: init_defs act_defs)
next
  assume "instantiate (BaseInternalInterfaces_init lhs rhs elemap cfg) be = (Inr self, be') \<or>
    instantiate (NavierStokesInternalInterfaces_init lhs rhs elemap cfg) be = (Inr self, be') \<or>
    instantiate (BaseMPIInterfaces_init lhs rhsrank elemap cfg) be = (Inr self, be') \<or>
    instantiate (NavierStokesMPIInterfaces_init lhs rhsrank elemap cfg) be = (Inr self, be')"
  then consider
    (internal) "instantiate (BaseInternalInterfaces_init lhs rhs elemap cfg) be = (Inr self, be') \<or>
      instantiate (NavierStokesInternalInterfaces_init lhs rhs elemap cfg) be = (Inr self, be')"
    | (mpi) "instantiate (BaseMPIInterfaces_init lhs rhsrank elemap cfg) be = (Inr self, be') \<or>
      instantiate (NavierStokesMPIInterfaces_init lhs rhsrank elemap cfg) be = (Inr self, be')"
    by blast
  then obtain ele where ele: "first_value elemap = Inr ele"
    and dims: "self ''ndims'' = Some (PInt (ndims ele))" "self ''nvars'' = Some (PInt (nvars ele))"
  proof cases
    case internal
    then show ?thesis
    proof (cases rule: internal_instantiate_cases)
      case (built ele sl sr ml mr ul extra)
      then show ?thesis using that by blast
    qed
  next
    case mpi
    then show ?thesis
    proof (cases rule: mpi_instantiate_cases)
      case (built ele sl extra)
      then show ?thesis using that by blast
    qed
  qed
  from ele obtain type rest where "elemap = (type, ele) # rest"
    by (cases elemap) (auto simp: first_value_def)
  with dims show "\<exists>type ele rest. elemap = (type, ele) # rest \<and>
       self ''ndims'' = Some (PInt (ndims ele)) \<and> self ''nvars'' = Some (PInt (nvars ele))"
    by blast
qed

theorem construction_needs_an_element_witness:
  "fst (instantiate (BaseInternalInterfaces_init ex_lhs ex_rhs ([] :: int elemap) ex_cfg) []) =
     Inl StopIteration \<and>
   snd (instantiate (BaseInternalInterfaces_init ex_lhs ex_rhs ([] :: int elemap) ex_cfg) []) = [] \<and>
   the_instance ex_internal ''ndims'' = Some (PInt 2) \<and>
   the_instance ex_internal ''nvars'' = Some (PInt 4)"
proof -
  have inst: "instantiate (BaseInternalInterfaces_init ex_lhs ex_rhs ex_elemap ex_cfg) [] =
      (Inr (the_instance ex_internal), snd ex_internal)"
    using built_instance [OF ex_internal_ok] by (simp add: ex_internal_def)
  show ?thesis
    using construction_needs_an_element [of ex_lhs ex_rhs ex_cfg "[]" 2 ex_elemap
        "the_instance ex_internal" "snd ex_internal"] inst
    by (simp add: ex_elemap_def ex_ele_def)
qed

text \<open>
  C8 (as amended). On every constructed interface set, calling a kernel getter twice
  leaves the instance and the backend as they were and gives the same outcome both
  times. For the pack, send\_pack, recv\_pack and unpack getters and the distributed conu
  getter the outcome is a kernel descriptor, the same one twice. For
  \<^verbatim>\<open>get_rsolve_kern\<close> the constant is read from the configuration at each call: when the
  configuration yields \<^verbatim>\<open>gamma\<close> the outcome is the descriptor with that value, the same
  one twice, and otherwise it is the exception of the configuration or of \<^verbatim>\<open>float\<close>,
  the same one twice. The internal conu getter is the subject of C2 and is left out.
\<close>

theorem kernel_getters_repeatable:
  "(instantiate (BaseMPIInterfaces_init lhs rhsrank elemap cfg) be = (Inr self, be') \<or>
    instantiate (NavierStokesMPIInterfaces_init lhs rhsrank elemap cfg) be = (Inr self, be') \<longrightarrow>
    (\<exists>v m. self ''_scal0_lhs'' = Some v \<and> self ''_scal0_rhs'' = Some m \<and>
       twice get_scal_fpts0_pack_kern (self, be'') =
         (Inr (Kernel ''pack'' [v]), Inr (Kernel ''pack'' [v]), (self, be'')) \<and>
       twice get_scal_fpts0_send_pack_kern (self, be'') =
         (Inr (Kernel ''send_pack'' [v, PInt rhsrank, PInt MPI_TAG]),
          Inr (Kernel ''send_pack'' [v, PInt rhsrank, PInt MPI_TAG]), (self, be'')) \<and>
       twice get_scal_fpts0_recv_pack_kern (self, be'') =
         (Inr (Kernel ''recv_pack'' [m, PInt rhsrank, PInt MPI_TAG]),
          Inr (Kernel ''recv_pack'' [m, PInt rhsrank, PInt MPI_TAG]), (self, be'')) \<and>
       twice get_scal_fpts0_unpack_kern (self, be'') =
         (Inr (Kernel ''unpack'' [m]), Inr (Kernel ''unpack'' [m]), (self, be'')))) \<and>
   (instantiate (BaseInternalInterfaces_init lhs rhs elemap cfg) be = (Inr self, be') \<longrightarrow>
    (\<exists>nd nv vl vr ml mr ul.
       self ''ndims'' = Some nd \<and> self ''nvars'' = Some nv \<and>
       self ''_scal0_lhs'' = Some vl \<and> self ''_scal0_rhs'' = Some vr \<and>
       self ''_mag_pnorm_lhs'' = Some ml \<and> self ''_mag_pnorm_rhs'' = Some mr \<and>
       self ''_norm_pnorm_lhs'' = Some ul \<and>
       twice EulerInternalInterfaces_get_rsolve_kern (self, be'') =
         (case cfg_getfloat cfg ''constants'' ''gamma'' of
            Inl e \<Rightarrow> (Inl e, Inl e, (self, be''))
          | Inr gamma \<Rightarrow>
              (Inr (Kernel ''rsolve_rus_inv_int'' [nd, nv, vl, vr, ml, mr, ul, PFloat gamma]),
               Inr (Kernel ''rsolve_rus_inv_int'' [nd, nv, vl, vr, ml, mr, ul, PFloat gamma]),
               (self, be''))))) \<and>
   (instantiate (BaseMPIInterfaces_init lhs rhsrank elemap cfg) be = (Inr self, be') \<longrightarrow>
    (\<exists>nd nv v m ml ul.
       self ''ndims'' = Some nd \<and> self ''nvars'' = Some nv \<and>
       self ''_scal0_lhs'' = Some v \<and> self ''_scal0_rhs'' = Some m \<and>
       self ''_mag_pnorm_lhs'' = Some ml \<and> self ''_norm_pnorm_lhs'' = Some ul \<and>
       twice (EulerMPIInterfaces_get_rsolve_kern pyfloat) (self, be'') =
         (case cfg_get cfg ''constants'' ''gamma'' of
            Inl e \<Rightarrow> (Inl e, Inl e, (self, be''))
          | Inr s \<Rightarrow>
              (case pyfloat s of
                 Inl e \<Rightarrow> (Inl e, Inl e, (self, be''))
               | Inr gamma \<Rightarrow>
                   (Inr (Kernel ''rsolve_rus_inv_mpi'' [nd, nv, v, m, ml, ul, PFloat gamma]),
                    Inr (Kernel ''rsolve_rus_inv_mpi'' [nd, nv, v, m, ml, ul, PFloat gamma]),
                    (self, be'')))))) \<and>
   (instantiate (NavierStokesMPIInterfaces_init lhs rhsrank elemap cfg) be = (Inr self, be') \<longrightarrow>
    (\<exists>nd nv v m t.
       self ''ndims'' = Some nd \<and> self ''nvars'' = Some nv \<and>
       self ''_scal0_lhs'' = Some v \<and> self ''_scal0_rhs'' = Some m \<and>
       self ''_scal1_lhs'' = Some t \<and>
       twice NavierStokesMPIInterfaces_get_conu_fpts_kern (self, be'') =
         (Inr (Kernel ''conu_mpi'' [nd, nv, v, m, t]),
          Inr (Kernel ''conu_mpi'' [nd, nv, v, m, t]), (self, be''))))"
proof (intro conjI impI)
  assume "instantiate (BaseMPIInterfaces_init lhs rhsrank elemap cfg) be = (Inr self, be') \<or>
    instantiate (NavierStokesMPIInterfaces_init lhs rhsrank elemap cfg) be = (Inr self, be')"
  then show "\<exists>v m. self ''_scal0_lhs'' = Some v \<and> self ''_scal0_rhs'' = Some m \<and>
       twice get_scal_fpts0_pack_kern (self, be'') =
         (Inr (Kernel ''pack'' [v]), Inr (Kernel ''pack'' [v]), (self, be'')) \<and>
       twice get_scal_fpts0_send_pack_kern (self, be'') =
         (Inr (Kernel ''send_pack'' [v, PInt rhsrank, PInt MPI_TAG]),
          Inr (Kernel ''send_pack'' [v, PInt rhsrank, PInt MPI_TAG]), (self, be'')) \<and>
       twice get_scal_fpts0_recv_pack_kern (self, be'') =
         (Inr (Kernel ''recv_pack'' [m, PInt rhsrank, PInt MPI_TAG]),
          Inr (Kernel ''recv_pack'' [m, PInt rhsrank, PInt MPI_TAG]), (self, be'')) \<and>
       twice get_scal_fpts0_unpack_kern (self, be'') =
         (Inr (Kernel ''unpack'' [m]), Inr (Kernel ''unpack'' [m]), (self, be''))"
  proof (cases rule: mpi_instantiate_cases)
    case (built ele sl extra)
    show ?thesis
      by (simp add: built twice_def getter_defs act_defs)
  qed
next
  assume "instantiate (BaseInternalInterfaces_init lhs rhs elemap cfg) be = (Inr self, be')"
  then obtain ele sl sr ml mr ul where
    look: "first_value elemap = Inr ele"
    "self ''_cfg'' = Some (PCfg cfg)"
    "self ''_be'' = Some PBackend"
    "self ''ndims'' = Some (PInt (ndims ele))"
    "self ''nvars'' = Some (PInt (nvars ele))"
    "self ''_scal0_lhs'' = Some (View (length be) sl (PInt (nvars ele)) {''nopad''})"
    "self ''_scal0_rhs'' = Some (View (length be + 1) sr (PInt (nvars ele)) {''nopad''})"
    "self ''_mag_pnorm_lhs'' = Some (ConstMatrix (length be + 2) ml {''nopad''})"
    "self ''_mag_pnorm_rhs'' = Some (ConstMatrix (length be + 3) mr {''nopad''})"
    "self ''_norm_pnorm_lhs'' = Some (ConstMatrix (length be + 4) ul {''nopad''})"
    by (rule euler_internal_attrs)
  show "\<exists>nd nv vl vr ml mr ul.
       self ''ndims'' = Some nd \<and> self ''nvars'' = Some nv \<and>
       self ''_scal0_lhs'' = Some vl \<and> self ''_scal0_rhs'' = Some vr \<and>
       self ''_mag_pnorm_lhs'' = Some ml \<and> self ''_mag_pnorm_rhs'' = Some mr \<and>
       self ''_norm_pnorm_lhs'' = Some ul \<and>
       twice EulerInternalInterfaces_get_rsolve_kern (self, be'') =
         (case cfg_getfloat cfg ''constants'' ''gamma'' of
            Inl e \<Rightarrow> (Inl e, Inl e, (self, be''))
          | Inr gamma \<Rightarrow>
              (Inr (Kernel ''rsolve_rus_inv_int'' [nd, nv, vl, vr, ml, mr, ul, PFloat gamma]),
               Inr (Kernel ''rsolve_rus_inv_int'' [nd, nv, vl, vr, ml, mr, ul, PFloat gamma]),
               (self, be'')))"
    by (simp add: look twice_def getter_defs act_defs split: sum.splits)
next
  assume "instantiate (BaseMPIInterfaces_init lhs rhsrank elemap cfg) be = (Inr self, be')"
  then obtain ele sl ml ul where
    look: "first_value elemap = Inr ele"
    "self ''_cfg'' = Some (PCfg cfg)"
    "self ''_be'' = Some PBackend"
    "self ''ndims'' = Some (PInt (ndims ele))"
    "self ''nvars'' = Some (PInt (nvars ele))"
    "self ''_scal0_lhs'' = Some (MPIView (length be) sl (PInt (nvars ele)) {''nopad''})"
    "self ''_scal0_rhs'' = Some (MPIMatrix (length be + 1) (view_npoints sl) (PInt (nvars ele)))"
    "self ''_mag_pnorm_lhs'' = Some (ConstMatrix (length be + 2) ml {''nopad''})"
    "self ''_norm_pnorm_lhs'' = Some (ConstMatrix (length be + 3) ul {''nopad''})"
    by (rule euler_mpi_attrs)
  show "\<exists>nd nv v m ml ul.
       self ''ndims'' = Some nd \<and> self ''nvars'' = Some nv \<and>
       self ''_scal0_lhs'' = Some v \<and> self ''_scal0_rhs'' = Some m \<and>
       self ''_mag_pnorm_lhs'' = Some ml \<and> self ''_norm_pnorm_lhs'' = Some ul \<and>
       twice (EulerMPIInterfaces_get_rsolve_kern pyfloat) (self, be'') =
         (case cfg_get cfg ''constants'' ''gamma'' of
            Inl e \<Rightarrow> (Inl e, Inl e, (self, be''))
          | Inr s \<Rightarrow>
              (case pyfloat s of
                 Inl e \<Rightarrow> (Inl e, Inl e, (self, be''))
               | Inr gamma \<Rightarrow>
                   (Inr (Kernel ''rsolve_rus_inv_mpi'' [nd, nv, v, m, ml, ul, PFloat gamma]),
                    Inr (Kernel ''rsolve_rus_inv_mpi'' [nd, nv, v, m, ml, ul, PFloat gamma]),
                    (self, be''))))"
    by (simp add: look twice_def getter_defs act_defs split: sum.splits)
next
  assume "instantiate (NavierStokesMPIInterfaces_init lhs rhsrank elemap cfg) be = (Inr self, be')"
  then obtain ele sl tl where
    look: "first_value elemap = Inr ele"
    "self ''_be'' = Some PBackend" "self ''ndims'' = Some (PInt (ndims ele))"
    "self ''nvars'' = Some (PInt (nvars ele))"
    "self ''_scal0_lhs'' = Some (MPIView (length be) sl (PInt (nvars ele)) {''nopad''})"
    "self ''_scal0_rhs'' = Some (MPIMatrix (length be + 1) (view_npoints sl) (PInt (nvars ele)))"
    "self ''_scal1_lhs'' = Some (MPIView (length be + 4) tl (PInt (nvars ele)) {''nopad''})"
    by (rule ns_mpi_attrs)
  show "\<exists>nd nv v m t.
       self ''ndims'' = Some nd \<and> self ''nvars'' = Some nv \<and>
       self ''_scal0_lhs'' = Some v \<and> self ''_scal0_rhs'' = Some m \<and>
       self ''_scal1_lhs'' = Some t \<and>
       twice NavierStokesMPIInterfaces_get_conu_fpts_kern (self, be'') =
         (Inr (Kernel ''conu_mpi'' [nd, nv, v, m, t]),
          Inr (Kernel ''conu_mpi'' [nd, nv, v, m, t]), (self, be''))"
    by (simp add: look twice_def getter_defs act_defs)
qed

theorem kernel_getters_repeatable_witness:
  "fst (twice EulerInternalInterfaces_get_rsolve_kern (the_instance ex_internal, snd ex_internal)) =
     Inr (Kernel ''rsolve_rus_inv_int''
       [PInt 2, PInt 4,
        View 0
          [NDArray [1, 12] [0, 0, 0, 0, 1, 1, 1, 1, 0, 0, 0, 0],
           NDArray [1, 12, 2] [4, 0, 5, 0, 6, 0, 7, 0, 0, 0, 1, 0, 2, 0, 3, 0,
                               8, 1, 9, 1, 10, 1, 11, 1],
           NDArray [1, 12, 2] [1, 8, 1, 8, 1, 8, 1, 8, 1, 8, 1, 8, 1, 8, 1, 8,
                               1, 8, 1, 8, 1, 8, 1, 8]] (PInt 4) {''nopad''},
        View 1
          [NDArray [1, 12] [0, 0, 0, 0, 0, 0, 0, 0, 1, 1, 1, 1],
           NDArray [1, 12, 2] [12, 1, 13, 1, 14, 1, 15, 1, 0, 0, 1, 0, 2, 0, 3, 0,
                               8, 0, 9, 0, 10, 0, 11, 0],
           NDArray [1, 12, 2] [1, 8, 1, 8, 1, 8, 1, 8, 1, 8, 1, 8, 1, 8, 1, 8,
                               1, 8, 1, 8, 1, 8, 1, 8]] (PInt 4) {''nopad''},
        ConstMatrix 2 (NDArray [1, 12] [2, 2, 2, 2, 1, 1, 1, 1, 3, 3, 3, 3]) {''nopad''},
        ConstMatrix 3 (NDArray [1, 12] [4, 4, 4, 4, 1, 1, 1, 1, 3, 3, 3, 3]) {''nopad''},
        ConstMatrix 4
          (NDArray [1, 12, 2] [1, 0, 1, 0, 1, 0, 1, 0, 1, 0, 1, 0, 1, 0, 1, 0,
                               1, 0, 1, 0, 1, 0, 1, 0]) {''nopad''},
        PFloat (7 / 5)]) \<and>
   fst (snd (twice EulerInternalInterfaces_get_rsolve_kern
               (the_instance ex_internal, snd ex_internal))) =
     fst (twice EulerInternalInterfaces_get_rsolve_kern (the_instance ex_internal, snd ex_internal)) \<and>
   snd (snd (twice EulerInternalInterfaces_get_rsolve_kern
               (the_instance ex_internal, snd ex_internal))) =
     (the_instance ex_internal, snd ex_internal) \<and>
   twice get_scal_fpts0_send_pack_kern (the_instance ex_mpi, snd ex_mpi) =
     (Inr (Kernel ''send_pack'' [MPIView 0
          [NDArray [1, 12] [0, 0, 0, 0, 1, 1, 1, 1, 0, 0, 0, 0],
           NDArray [1, 12, 2] [4, 0, 5, 0, 6, 0, 7, 0, 0, 0, 1, 0, 2, 0, 3, 0,
                               8, 1, 9, 1, 10, 1, 11, 1],
           NDArray [1, 12, 2] [1, 8, 1, 8, 1, 8, 1, 8, 1, 8, 1, 8, 1, 8, 1, 8,
                               1, 8, 1, 8, 1, 8, 1, 8]] (PInt 4) {''nopad''}, PInt 2, PInt 2314]),
      Inr (Kernel ''send_pack'' [MPIView 0
          [NDArray [1, 12] [0, 0, 0, 0, 1, 1, 1, 1, 0, 0, 0, 0],
           NDArray [1, 12, 2] [4, 0, 5, 0, 6, 0, 7, 0, 0, 0, 1, 0, 2, 0, 3, 0,
                               8, 1, 9, 1, 10, 1, 11, 1],
           NDArray [1, 12, 2] [1, 8, 1, 8, 1, 8, 1, 8, 1, 8, 1, 8, 1, 8, 1, 8,
                               1, 8, 1, 8, 1, 8, 1, 8]] (PInt 4) {''nopad''}, PInt 2, PInt 2314]),
      (the_instance ex_mpi, snd ex_mpi)) \<and>
   twice get_scal_fpts0_recv_pack_kern (the_instance ex_mpi, snd ex_mpi) =
     (Inr (Kernel ''recv_pack'' [MPIMatrix 1 12 (PInt 4), PInt 2, PInt 2314]),
      Inr (Kernel ''recv_pack'' [MPIMatrix 1 12 (PInt 4), PInt 2, PInt 2314]),
      (the_instance ex_mpi, snd ex_mpi)) \<and>
   fst (twice (EulerMPIInterfaces_get_rsolve_kern ex_float) (the_instance ex_mpi, snd ex_mpi)) =
     Inr (Kernel ''rsolve_rus_inv_mpi''
       [PInt 2, PInt 4,
        MPIView 0
          [NDArray [1, 12] [0, 0, 0, 0, 1, 1, 1, 1, 0, 0, 0, 0],
           NDArray [1, 12, 2] [4, 0, 5, 0, 6, 0, 7, 0, 0, 0, 1, 0, 2, 0, 3, 0,
                               8, 1, 9, 1, 10, 1, 11, 1],
           NDArray [1, 12, 2] [1, 8, 1, 8, 1, 8, 1, 8, 1, 8, 1, 8, 1, 8, 1, 8,
                               1, 8, 1, 8, 1, 8, 1, 8]] (PInt 4) {''nopad''},
        MPIMatrix 1 12 (PInt 4),
        ConstMatrix 2 (NDArray [1, 12] [2, 2, 2, 2, 1, 1, 1, 1, 3, 3, 3, 3]) {''nopad''},
        ConstMatrix 3
          (NDArray [1, 12, 2] [1, 0, 1, 0, 1, 0, 1, 0, 1, 0, 1, 0, 1, 0, 1, 0,
                               1, 0, 1, 0, 1, 0, 1, 0]) {''nopad''},
        PFloat (7 / 5)])"
proof -
  have i1: "instantiate (BaseInternalInterfaces_init ex_lhs ex_rhs ex_elemap ex_cfg) [] =
      (Inr (the_instance ex_internal), snd ex_internal)"
    using built_instance [OF ex_internal_ok] by (simp add: ex_internal_def)
  have i2: "instantiate (BaseMPIInterfaces_init ex_lhs 2 ex_elemap ex_cfg) [] =
      (Inr (the_instance ex_mpi), snd ex_mpi)"
    using built_instance [OF ex_mpi_ok] by (simp add: ex_mpi_def)
  have look1: "the_instance ex_internal ''ndims'' = Some (PInt 2)"
    "the_instance ex_internal ''nvars'' = Some (PInt 4)"
    "the_instance ex_internal ''_scal0_lhs'' = Some (View 0
          [NDArray [1, 12] [0, 0, 0, 0, 1, 1, 1, 1, 0, 0, 0, 0],
           NDArray [1, 12, 2] [4, 0, 5, 0, 6, 0, 7, 0, 0, 0, 1, 0, 2, 0, 3, 0,
                               8, 1, 9, 1, 10, 1, 11, 1],
           NDArray [1, 12, 2] [1, 8, 1, 8, 1, 8, 1, 8, 1, 8, 1, 8, 1, 8, 1, 8,
                               1, 8, 1, 8, 1, 8, 1, 8]] (PInt 4) {''nopad''})"
    "the_instance ex_internal ''_scal0_rhs'' = Some (View 1
          [NDArray [1, 12] [0, 0, 0, 0, 0, 0, 0, 0, 1, 1, 1, 1],
           NDArray [1, 12, 2] [12, 1, 13, 1, 14, 1, 15, 1, 0, 0, 1, 0, 2, 0, 3, 0,
                               8, 0, 9, 0, 10, 0, 11, 0],
           NDArray [1, 12, 2] [1, 8, 1, 8, 1, 8, 1, 8, 1, 8, 1, 8, 1, 8, 1, 8,
                               1, 8, 1, 8, 1, 8, 1, 8]] (PInt 4) {''nopad''})"
    "the_instance ex_internal ''_mag_pnorm_lhs'' = Some
       (ConstMatrix 2 (NDArray [1, 12] [2, 2, 2, 2, 1, 1, 1, 1, 3, 3, 3, 3]) {''nopad''})"
    "the_instance ex_internal ''_mag_pnorm_rhs'' = Some
       (ConstMatrix 3 (NDArray [1, 12] [4, 4, 4, 4, 1, 1, 1, 1, 3, 3, 3, 3]) {''nopad''})"
    "the_instance ex_internal ''_norm_pnorm_lhs'' = Some
       (ConstMatrix 4
          (NDArray [1, 12, 2] [1, 0, 1, 0, 1, 0, 1, 0, 1, 0, 1, 0, 1, 0, 1, 0,
                               1, 0, 1, 0, 1, 0, 1, 0]) {''nopad''})"
    by (simp_all add: ex_internal_def the_instance_def init_defs act_defs ex_lhs_def ex_rhs_def
        ex_elemap_def ex_ele_def ex_getter_def array_defs)
  have look2: "the_instance ex_mpi ''ndims'' = Some (PInt 2)"
    "the_instance ex_mpi ''nvars'' = Some (PInt 4)"
    "the_instance ex_mpi ''_scal0_lhs'' = Some (MPIView 0
          [NDArray [1, 12] [0, 0, 0, 0, 1, 1, 1, 1, 0, 0, 0, 0],
           NDArray [1, 12, 2] [4, 0, 5, 0, 6, 0, 7, 0, 0, 0, 1, 0, 2, 0, 3, 0,
                               8, 1, 9, 1, 10, 1, 11, 1],
           NDArray [1, 12, 2] [1, 8, 1, 8, 1, 8, 1, 8, 1, 8, 1, 8, 1, 8, 1, 8,
                               1, 8, 1, 8, 1, 8, 1, 8]] (PInt 4) {''nopad''})"
    "the_instance ex_mpi ''_scal0_rhs'' = Some (MPIMatrix 1 12 (PInt 4))"
    "the_instance ex_mpi ''_mag_pnorm_lhs'' = Some
       (ConstMatrix 2 (NDArray [1, 12] [2, 2, 2, 2, 1, 1, 1, 1, 3, 3, 3, 3]) {''nopad''})"
    "the_instance ex_mpi ''_norm_pnorm_lhs'' = Some
       (ConstMatrix 3
          (NDArray [1, 12, 2] [1, 0, 1, 0, 1, 0, 1, 0, 1, 0, 1, 0, 1, 0, 1, 0,
                               1, 0, 1, 0, 1, 0, 1, 0]) {''nopad''})"
    by (simp_all add: ex_mpi_def the_instance_def init_defs act_defs ex_lhs_def ex_rhs_def
        ex_elemap_def ex_ele_def ex_getter_def array_defs)
  have g: "cfg_getfloat ex_cfg ''constants'' ''gamma'' = Inr (7 / 5)"
    "cfg_get ex_cfg ''constants'' ''gamma'' = Inr ''1.4''" "ex_float ''1.4'' = Inr (7 / 5)"
    by (simp_all add: ex_cfg_def ex_float_def)
  show ?thesis
    using kernel_getters_repeatable [of ex_lhs 2 ex_elemap ex_cfg "[]" "the_instance ex_internal"
        "snd ex_internal" "snd ex_internal" ex_rhs ex_float] i1
      kernel_getters_repeatable [of ex_lhs 2 ex_elemap ex_cfg "[]" "the_instance ex_mpi"
        "snd ex_mpi" "snd ex_mpi" ex_rhs ex_float] i2
    by (simp add: look1 look2 g MPI_TAG_def)
qed

text \<open>
  C8 as stated fails: an internal Euler set constructs with a configuration whose
  \<^verbatim>\<open>gamma\<close> is not a number, and both calls of \<^verbatim>\<open>get_rsolve_kern\<close> raise ValueError
  instead of returning a descriptor.
\<close>

theorem rsolve_getter_raises_counterexample:
  "\<not> isl (fst ex_internal_badcfg) \<and>
   fst (twice EulerInternalInterfaces_get_rsolve_kern
          (the_instance ex_internal_badcfg, snd ex_internal_badcfg)) = Inl ValueError \<and>
   fst (snd (twice EulerInternalInterfaces_get_rsolve_kern
          (the_instance ex_internal_badcfg, snd ex_internal_badcfg))) = Inl ValueError"
proof -
  have c: "the_instance ex_internal_badcfg ''_cfg'' = Some (PCfg ex_cfg_bad)"
    by (simp add: ex_internal_badcfg_def the_instance_def init_defs act_defs ex_lhs_def
        ex_rhs_def ex_elemap_def ex_ele_def ex_getter_def array_defs)
  have g: "cfg_getfloat ex_cfg_bad ''constants'' ''gamma'' = Inl ValueError"
    by (simp add: ex_cfg_bad_def)
  show ?thesis
    using ex_internal_badcfg_ok
    by (simp add: twice_def getter_defs act_defs c g)
qed

end
